theory Spec2Isabelle
  imports Complex_Main "HOL-Library.Word"
begin

unbundle bit_operations_syntax

section \<open>SSE and MMX register model\<close>

text \<open>
  The kernels are x86-64 assembly.  An xmm register of the single precision code holds
  four lanes, one of the double precision code two lanes; an mm register holds two 32-bit
  integers.  Lane 0 is the low lane.  General purpose registers are 32-bit words; an
  address \<open>[base + r*scale + disp]\<close> is the element index \<open>unat r + disp div scale\<close>
  into the array at \<open>base\<close>.

  The floating point operations of the processor round, overflow and propagate NaN as the
  control register \<open>MXCSR\<close> in force at the call prescribes; the kernels do not set it.
  They are therefore parameters of the model, collected in a record \<open>F\<close> over an
  arbitrary type \<open>'a\<close> of lane contents, and nothing is assumed about them: what is
  proved of a kernel holds for the operations of the machine, whatever they are.
\<close>

record 'a fpu =
  fadd :: "'a \<Rightarrow> 'a \<Rightarrow> 'a"
  fsub :: "'a \<Rightarrow> 'a \<Rightarrow> 'a"
  fmul :: "'a \<Rightarrow> 'a \<Rightarrow> 'a"
  frsqrt :: "'a \<Rightarrow> 'a"
  fcvtt :: "'a \<Rightarrow> 32 word"
  fcvti :: "32 word \<Rightarrow> 'a"
  fbits :: "32 word \<Rightarrow> 'a"
  dadd :: "'a \<Rightarrow> 'a \<Rightarrow> 'a"
  dsub :: "'a \<Rightarrow> 'a \<Rightarrow> 'a"
  dmul :: "'a \<Rightarrow> 'a \<Rightarrow> 'a"
  dcvtt :: "'a \<Rightarrow> 32 word"
  dcvti :: "32 word \<Rightarrow> 'a"
  dbits :: "32 word \<Rightarrow> 32 word \<Rightarrow> 'a"
  d2s :: "'a \<Rightarrow> 'a"
  s2d :: "'a \<Rightarrow> 'a"

text \<open>
  \<open>fadd\<close>, \<open>fsub\<close>, \<open>fmul\<close>: one lane of \<open>addps\<close>/\<open>addss\<close>, \<open>subps\<close>/\<open>subss\<close>,
  \<open>mulps\<close>/\<open>mulss\<close>, with the destination operand first.
  \<open>frsqrt\<close>: one lane of \<open>rsqrtps\<close>/\<open>rsqrtss\<close>, the reciprocal square root estimate.
  \<open>fcvtt\<close>: one lane of \<open>cvttps2pi\<close>; \<open>fcvti\<close>: one lane of \<open>cvtpi2ps\<close>.
  \<open>fbits w\<close>: the single precision lane whose 32 bits are \<open>w\<close>.
  \<open>dadd\<close>, \<open>dsub\<close>, \<open>dmul\<close>, \<open>dcvtt\<close>, \<open>dcvti\<close>: the same for the double precision
  instructions (\<open>addpd\<close>/\<open>addsd\<close>, ..., \<open>cvttpd2pi\<close>, \<open>cvtpi2pd\<close>).
  \<open>dbits lo hi\<close>: the double precision lane whose low and high 32 bits are \<open>lo\<close> and \<open>hi\<close>.
  \<open>d2s\<close>: one lane of \<open>cvtpd2ps\<close>/\<open>cvtsd2ss\<close>; \<open>s2d\<close>: one lane of
  \<open>cvtps2pd\<close>/\<open>cvtss2sd\<close>.
\<close>

type_synonym 'a v4 = "'a \<times> 'a \<times> 'a \<times> 'a"
type_synonym 'a v2 = "'a \<times> 'a"
type_synonym mmx = "32 word \<times> 32 word"
type_synonym 'a fmem = "nat \<Rightarrow> 'a"
type_synonym imem = "nat \<Rightarrow> 32 word"

definition l0 :: "'a v4 \<Rightarrow> 'a" where "l0 v = fst v"
definition l1 :: "'a v4 \<Rightarrow> 'a" where "l1 v = fst (snd v)"
definition l2 :: "'a v4 \<Rightarrow> 'a" where "l2 v = fst (snd (snd v))"
definition l3 :: "'a v4 \<Rightarrow> 'a" where "l3 v = snd (snd (snd v))"

definition map_v4 :: "('a \<Rightarrow> 'a) \<Rightarrow> 'a v4 \<Rightarrow> 'a v4" where
  "map_v4 f a = (f (l0 a), f (l1 a), f (l2 a), f (l3 a))"

text \<open>Lanes by index; an index past the last lane reads the last lane, so that a
  statement about \<open>lane4 v k\<close> or \<open>lane2 v i\<close> for every index is a statement about every
  lane.  (\<open>lane4\<close> is defined with the shuffles.)\<close>

definition lane2 :: "'a v2 \<Rightarrow> nat \<Rightarrow> 'a" where
  "lane2 v i = (if i = 0 then fst v else snd v)"

definition map_v2 :: "('a \<Rightarrow> 'a) \<Rightarrow> 'a v2 \<Rightarrow> 'a v2" where
  "map_v2 f a = (f (fst a), f (snd a))"

subsection \<open>Single precision\<close>

definition addps :: "'a fpu \<Rightarrow> 'a v4 \<Rightarrow> 'a v4 \<Rightarrow> 'a v4" where
  "addps F a b = (fadd F (l0 a) (l0 b), fadd F (l1 a) (l1 b), fadd F (l2 a) (l2 b),
     fadd F (l3 a) (l3 b))"
definition subps :: "'a fpu \<Rightarrow> 'a v4 \<Rightarrow> 'a v4 \<Rightarrow> 'a v4" where
  "subps F a b = (fsub F (l0 a) (l0 b), fsub F (l1 a) (l1 b), fsub F (l2 a) (l2 b),
     fsub F (l3 a) (l3 b))"
definition mulps :: "'a fpu \<Rightarrow> 'a v4 \<Rightarrow> 'a v4 \<Rightarrow> 'a v4" where
  "mulps F a b = (fmul F (l0 a) (l0 b), fmul F (l1 a) (l1 b), fmul F (l2 a) (l2 b),
     fmul F (l3 a) (l3 b))"

text \<open>Scalar forms: lane 0 of the destination is combined with the scalar operand,
  the upper lanes of the destination are kept.\<close>

definition addss :: "'a fpu \<Rightarrow> 'a v4 \<Rightarrow> 'a \<Rightarrow> 'a v4" where
  "addss F a x = (fadd F (l0 a) x, l1 a, l2 a, l3 a)"
definition subss :: "'a fpu \<Rightarrow> 'a v4 \<Rightarrow> 'a \<Rightarrow> 'a v4" where
  "subss F a x = (fsub F (l0 a) x, l1 a, l2 a, l3 a)"
definition mulss :: "'a fpu \<Rightarrow> 'a v4 \<Rightarrow> 'a \<Rightarrow> 'a v4" where
  "mulss F a x = (fmul F (l0 a) x, l1 a, l2 a, l3 a)"

text \<open>\<open>xorps r, r\<close> clears a register: every lane has the bits zero.\<close>

definition xorps_self :: "'a fpu \<Rightarrow> 'a v4" where
  "xorps_self F = (fbits F 0, fbits F 0, fbits F 0, fbits F 0)"

text \<open>Loads: \<open>movss\<close> from memory clears the upper lanes, \<open>movlps\<close> and
  \<open>movhps\<close> replace one half of the destination and keep the other.\<close>

definition movss_ld :: "'a fpu \<Rightarrow> 'a fmem \<Rightarrow> nat \<Rightarrow> 'a v4" where
  "movss_ld F m i = (m i, fbits F 0, fbits F 0, fbits F 0)"
definition movlps_ld :: "'a v4 \<Rightarrow> 'a fmem \<Rightarrow> nat \<Rightarrow> 'a v4" where
  "movlps_ld d m i = (m i, m (i + 1), l2 d, l3 d)"
definition movhps_ld :: "'a v4 \<Rightarrow> 'a fmem \<Rightarrow> nat \<Rightarrow> 'a v4" where
  "movhps_ld d m i = (l0 d, l1 d, m i, m (i + 1))"

text \<open>Stores.\<close>

definition movss_st :: "'a fmem \<Rightarrow> nat \<Rightarrow> 'a v4 \<Rightarrow> 'a fmem" where
  "movss_st m i a = m(i := l0 a)"
definition movlps_st :: "'a fmem \<Rightarrow> nat \<Rightarrow> 'a v4 \<Rightarrow> 'a fmem" where
  "movlps_st m i a = m(i := l0 a, i + 1 := l1 a)"
definition movhps_st :: "'a fmem \<Rightarrow> nat \<Rightarrow> 'a v4 \<Rightarrow> 'a fmem" where
  "movhps_st m i a = m(i := l2 a, i + 1 := l3 a)"

text \<open>\<open>movss\<close> to an aligned stack slot replaces lane 0 of the slot; from a slot it
  reads lane 0 and clears the upper lanes.\<close>

definition movss_slot :: "'a v4 \<Rightarrow> 'a v4 \<Rightarrow> 'a v4" where
  "movss_slot slot a = (l0 a, l1 slot, l2 slot, l3 slot)"
definition movss_ld_slot :: "'a fpu \<Rightarrow> 'a v4 \<Rightarrow> 'a v4" where
  "movss_ld_slot F slot = (l0 slot, fbits F 0, fbits F 0, fbits F 0)"

text \<open>Shuffles.\<close>

definition lane4 :: "'a v4 \<Rightarrow> nat \<Rightarrow> 'a" where
  "lane4 v k = (if k = 0 then l0 v else if k = 1 then l1 v else if k = 2 then l2 v else l3 v)"

definition shufps :: "'a v4 \<Rightarrow> 'a v4 \<Rightarrow> nat \<Rightarrow> 'a v4" where
  "shufps d s imm =
     (lane4 d (imm mod 4), lane4 d (imm div 4 mod 4),
      lane4 s (imm div 16 mod 4), lane4 s (imm div 64 mod 4))"

definition movhlps :: "'a v4 \<Rightarrow> 'a v4 \<Rightarrow> 'a v4" where
  "movhlps d s = (l2 s, l3 s, l2 d, l3 d)"
definition movlhps :: "'a v4 \<Rightarrow> 'a v4 \<Rightarrow> 'a v4" where
  "movlhps d s = (l0 d, l1 d, l0 s, l1 s)"
definition unpcklps :: "'a v4 \<Rightarrow> 'a v4 \<Rightarrow> 'a v4" where
  "unpcklps d s = (l0 d, l0 s, l1 d, l1 s)"
definition unpckhps :: "'a v4 \<Rightarrow> 'a v4 \<Rightarrow> 'a v4" where
  "unpckhps d s = (l2 d, l2 s, l3 d, l3 s)"

definition rsqrtps :: "'a fpu \<Rightarrow> 'a v4 \<Rightarrow> 'a v4" where
  "rsqrtps F a = (frsqrt F (l0 a), frsqrt F (l1 a), frsqrt F (l2 a), frsqrt F (l3 a))"

text \<open>Conversions between lanes 0 and 1 and the two integers of an mm register.\<close>

definition cvttps2pi :: "'a fpu \<Rightarrow> 'a v4 \<Rightarrow> mmx" where
  "cvttps2pi F a = (fcvtt F (l0 a), fcvtt F (l1 a))"
definition cvtpi2ps :: "'a fpu \<Rightarrow> 'a v4 \<Rightarrow> mmx \<Rightarrow> 'a v4" where
  "cvtpi2ps F d m = (fcvti F (fst m), fcvti F (snd m), l2 d, l3 d)"
definition pslld :: "mmx \<Rightarrow> nat \<Rightarrow> mmx" where
  "pslld m k = (push_bit k (fst m), push_bit k (snd m))"
definition psrlq32 :: "mmx \<Rightarrow> mmx" where
  "psrlq32 m = (snd m, 0)"
definition movd :: "mmx \<Rightarrow> 32 word" where
  "movd m = fst m"
definition movd_mm :: "32 word \<Rightarrow> mmx" where
  "movd_mm w = (w, 0)"

subsection \<open>Double precision\<close>

definition addpd :: "'a fpu \<Rightarrow> 'a v2 \<Rightarrow> 'a v2 \<Rightarrow> 'a v2" where
  "addpd F a b = (dadd F (fst a) (fst b), dadd F (snd a) (snd b))"
definition subpd :: "'a fpu \<Rightarrow> 'a v2 \<Rightarrow> 'a v2 \<Rightarrow> 'a v2" where
  "subpd F a b = (dsub F (fst a) (fst b), dsub F (snd a) (snd b))"
definition mulpd :: "'a fpu \<Rightarrow> 'a v2 \<Rightarrow> 'a v2 \<Rightarrow> 'a v2" where
  "mulpd F a b = (dmul F (fst a) (fst b), dmul F (snd a) (snd b))"

text \<open>Scalar forms: the low lane of the destination is combined with the scalar
  operand, the high lane of the destination is kept.\<close>

definition addsd :: "'a fpu \<Rightarrow> 'a v2 \<Rightarrow> 'a \<Rightarrow> 'a v2" where
  "addsd F a x = (dadd F (fst a) x, snd a)"
definition subsd :: "'a fpu \<Rightarrow> 'a v2 \<Rightarrow> 'a \<Rightarrow> 'a v2" where
  "subsd F a x = (dsub F (fst a) x, snd a)"
definition mulsd :: "'a fpu \<Rightarrow> 'a v2 \<Rightarrow> 'a \<Rightarrow> 'a v2" where
  "mulsd F a x = (dmul F (fst a) x, snd a)"

definition xorpd_self :: "'a fpu \<Rightarrow> 'a v2" where
  "xorpd_self F = (dbits F 0 0, dbits F 0 0)"

text \<open>\<open>movsd\<close> from memory clears the high lane; between registers it copies the
  low lane and keeps the high lane of the destination.\<close>

definition movsd_ld :: "'a fpu \<Rightarrow> 'a fmem \<Rightarrow> nat \<Rightarrow> 'a v2" where
  "movsd_ld F m i = (m i, dbits F 0 0)"
definition movsd_ld_slot :: "'a fpu \<Rightarrow> 'a v2 \<Rightarrow> 'a v2" where
  "movsd_ld_slot F slot = (fst slot, dbits F 0 0)"
definition movsd_rr :: "'a v2 \<Rightarrow> 'a v2 \<Rightarrow> 'a v2" where
  "movsd_rr d s = (fst s, snd d)"
definition movsd_slot :: "'a v2 \<Rightarrow> 'a v2 \<Rightarrow> 'a v2" where
  "movsd_slot slot a = (fst a, snd slot)"
definition movsd_st :: "'a fmem \<Rightarrow> nat \<Rightarrow> 'a v2 \<Rightarrow> 'a fmem" where
  "movsd_st m i a = m(i := fst a)"
definition movlpd_slot :: "'a v2 \<Rightarrow> 'a v2 \<Rightarrow> 'a v2" where
  "movlpd_slot slot a = (fst a, snd slot)"
definition movhpd_slot :: "'a v2 \<Rightarrow> 'a v2 \<Rightarrow> 'a v2" where
  "movhpd_slot slot a = (snd a, snd slot)"
definition movlpd_ld_slot :: "'a v2 \<Rightarrow> 'a v2 \<Rightarrow> 'a v2" where
  "movlpd_ld_slot d slot = (fst slot, snd d)"
definition movhpd_ld_slot :: "'a v2 \<Rightarrow> 'a v2 \<Rightarrow> 'a v2" where
  "movhpd_ld_slot d slot = (fst d, fst slot)"
definition movlpd_ld :: "'a v2 \<Rightarrow> 'a fmem \<Rightarrow> nat \<Rightarrow> 'a v2" where
  "movlpd_ld d m i = (m i, snd d)"
definition movhpd_ld :: "'a v2 \<Rightarrow> 'a fmem \<Rightarrow> nat \<Rightarrow> 'a v2" where
  "movhpd_ld d m i = (fst d, m i)"
definition movlpd_st :: "'a fmem \<Rightarrow> nat \<Rightarrow> 'a v2 \<Rightarrow> 'a fmem" where
  "movlpd_st m i a = m(i := fst a)"
definition movhpd_st :: "'a fmem \<Rightarrow> nat \<Rightarrow> 'a v2 \<Rightarrow> 'a fmem" where
  "movhpd_st m i a = m(i := snd a)"
definition movapd_ld :: "'a fmem \<Rightarrow> nat \<Rightarrow> 'a v2" where
  "movapd_ld m i = (m i, m (i + 1))"

definition shufpd :: "'a v2 \<Rightarrow> 'a v2 \<Rightarrow> nat \<Rightarrow> 'a v2" where
  "shufpd d s imm =
     (if imm mod 2 = 0 then fst d else snd d, if imm div 2 mod 2 = 0 then fst s else snd s)"
definition unpcklpd :: "'a v2 \<Rightarrow> 'a v2 \<Rightarrow> 'a v2" where
  "unpcklpd d s = (fst d, fst s)"
definition unpckhpd :: "'a v2 \<Rightarrow> 'a v2 \<Rightarrow> 'a v2" where
  "unpckhpd d s = (snd d, snd s)"

text \<open>
  The seed of the double precision code is the single precision estimate.
  \<open>cvtpd2ps\<close> leaves two single precision lanes and clears lanes 2 and 3;
  \<open>cvtps2pd\<close> converts lanes 0 and 1.  The scalar forms \<open>cvtsd2ss\<close>, \<open>rsqrtss\<close>
  and \<open>cvtss2sd\<close> work on the low 32 bits of the destination, which here are the
  first component of the pair, and keep bits 64--127, the second component; bits
  32--63 between \<open>cvtsd2ss\<close> and \<open>cvtss2sd\<close> are not represented, and no
  instruction of the kernels reads them.
\<close>

definition cvtpd2ps :: "'a fpu \<Rightarrow> 'a v2 \<Rightarrow> 'a v4" where
  "cvtpd2ps F a = (d2s F (fst a), d2s F (snd a), fbits F 0, fbits F 0)"
definition cvtps2pd :: "'a fpu \<Rightarrow> 'a v4 \<Rightarrow> 'a v2" where
  "cvtps2pd F a = (s2d F (l0 a), s2d F (l1 a))"
definition cvtsd2ss :: "'a fpu \<Rightarrow> 'a v2 \<Rightarrow> 'a v2 \<Rightarrow> 'a v2" where
  "cvtsd2ss F d s = (d2s F (fst s), snd d)"
definition rsqrtss :: "'a fpu \<Rightarrow> 'a v2 \<Rightarrow> 'a v2 \<Rightarrow> 'a v2" where
  "rsqrtss F d s = (frsqrt F (fst s), snd d)"
definition cvtss2sd :: "'a fpu \<Rightarrow> 'a v2 \<Rightarrow> 'a v2 \<Rightarrow> 'a v2" where
  "cvtss2sd F d s = (s2d F (fst s), snd d)"

definition cvttsd2si :: "'a fpu \<Rightarrow> 'a v2 \<Rightarrow> 32 word" where
  "cvttsd2si F a = dcvtt F (fst a)"
definition cvtsi2sd :: "'a fpu \<Rightarrow> 'a v2 \<Rightarrow> 32 word \<Rightarrow> 'a v2" where
  "cvtsi2sd F d w = (dcvti F w, snd d)"

definition cvttpd2pi :: "'a fpu \<Rightarrow> 'a v2 \<Rightarrow> mmx" where
  "cvttpd2pi F a = (dcvtt F (fst a), dcvtt F (snd a))"
definition cvtpi2pd :: "'a fpu \<Rightarrow> mmx \<Rightarrow> 'a v2" where
  "cvtpi2pd F m = (dcvti F (fst m), dcvti F (snd m))"

subsection \<open>Exact arithmetic\<close>

text \<open>
  The instance of the operations in which nothing is rounded: lanes are real numbers,
  the arithmetic is that of the reals, the conversions between the precisions are the
  identity, and the estimate of the reciprocal square root is a parameter \<open>rs\<close>.  It
  serves to compare what the code computes with the formulas of the specification.
  Conversion to an integer truncates towards zero and gives the integer indefinite
  value \<open>0x80000000\<close> when the result does not fit.  A bit pattern is decoded as an
  IEEE 754 number; infinities and NaN, which are no real numbers, are decoded as 0.
\<close>

definition trunc0 :: "real \<Rightarrow> int" where
  "trunc0 x = (if 0 \<le> x then \<lfloor>x\<rfloor> else \<lceil>x\<rceil>)"

definition cvtt :: "real \<Rightarrow> 32 word" where
  "cvtt x = (let n = trunc0 x in
     if - (2 ^ 31) \<le> n \<and> n < 2 ^ 31 then word_of_int n else 0x80000000)"

definition ieee_value :: "nat \<Rightarrow> nat \<Rightarrow> nat \<Rightarrow> real" where
  "ieee_value ebits mbits n =
    (let m = n mod 2 ^ mbits;
         e = n div 2 ^ mbits mod 2 ^ ebits;
         sg = (if n div 2 ^ (mbits + ebits) mod 2 = 0 then 1 else - 1);
         bias = 2 ^ (ebits - 1) - 1
     in if e = 2 ^ ebits - 1 then 0
        else if e = 0 then sg * real m * 2 powi (1 - int bias - int mbits)
        else sg * (2 ^ mbits + real m) * 2 powi (int e - int bias - int mbits))"

definition exact_fpu :: "(real \<Rightarrow> real) \<Rightarrow> real fpu" where
  "exact_fpu rs =
    \<lparr>fadd = (+), fsub = (-), fmul = (*), frsqrt = rs, fcvtt = cvtt,
     fcvti = (\<lambda>w. real_of_int (sint w)),
     fbits = (\<lambda>w. ieee_value 8 23 (unat w)),
     dadd = (+), dsub = (-), dmul = (*), dcvtt = cvtt,
     dcvti = (\<lambda>w. real_of_int (sint w)),
     dbits = (\<lambda>lo hi. ieee_value 11 52 (unat lo + 2 ^ 32 * unat hi)),
     d2s = (\<lambda>x. x), s2d = (\<lambda>x. x)\<rparr>"

section \<open>The kernels\<close>

text \<open>
  The source holds eight kernel functions in three files:
  \<open>nb_kernel030_x86_64_sse\<close> and \<open>nb_kernel030nf_x86_64_sse\<close> (single precision, file
  \<open>nb_kernel030_x86_64_sse.s\<close>); \<open>nb_kernel312_x86_64_sse2\<close> and
  \<open>nb_kernel312nf_x86_64_sse2\<close> (double precision, file \<open>part_000\<close>);
  \<open>nb_kernel232_x86_64_sse2\<close>, \<open>nb_kernel232nf_x86_64_sse2\<close>,
  \<open>nb_kernel030_x86_64_sse2\<close> and \<open>nb_kernel030nf_x86_64_sse2\<close> (double precision, file
  \<open>nb_kernel232_x86_64_sse2.s\<close>).  The kernels with \<open>nf\<close> compute energies and no
  forces.  Line numbers are those of the file of the kernel.

  The state of a kernel is a record of the registers and stack slots that the code
  embedded here reads or writes; a stack slot has the name of the source.  A range of
  lines is a function from state to state with one binding for each instruction, in the
  order of the source.  Where the same instructions occur again, the ranges are listed
  with the definition.  The names of \<open>nb_kernel030_x86_64_sse2\<close>, which the source also
  prefixes \<open>nb030_\<close>, are prefixed \<open>nb030_sse2_\<close> here.
\<close>

subsection \<open>\<open>nb_kernel030_x86_64_sse\<close>\<close>

record 'a nb030_state =
  nb030_xmm0 :: "'a v4"
  nb030_xmm1 :: "'a v4"
  nb030_xmm2 :: "'a v4"
  nb030_xmm4 :: "'a v4"
  nb030_xmm5 :: "'a v4"

text \<open>Lines 143--154: \<open>half\<close> is the single with the bits \<open>0x3f000000\<close>, in all
  lanes; \<open>two\<close> and \<open>three\<close> are made from it by additions.  The slots are written
  here and nowhere else.  The same instructions, without the store of \<open>two\<close>, are at
  lines 1127--1137 (\<open>nb_kernel030nf_x86_64_sse\<close>).  The result is
  \<open>(half, two, three)\<close>.\<close>

definition nb030_consts :: "'a fpu \<Rightarrow> 'a v4 \<times> 'a v4 \<times> 'a v4" where
  "nb030_consts F =
    (let eax = 0x3f000000;
         xmm1 = movss_ld F (\<lambda>_. fbits F eax) 0;
         xmm1 = shufps xmm1 xmm1 0;
         xmm2 = xmm1;
         xmm2 = addps F xmm2 xmm2;
         xmm3 = xmm2;
         xmm2 = addps F xmm2 xmm2;
         xmm3 = addps F xmm3 xmm2
     in (xmm1, xmm2, xmm3))"

definition nb030_half :: "'a fpu \<Rightarrow> 'a v4" where "nb030_half F = fst (nb030_consts F)"
definition nb030_two :: "'a fpu \<Rightarrow> 'a v4" where "nb030_two F = fst (snd (nb030_consts F))"
definition nb030_three :: "'a fpu \<Rightarrow> 'a v4" where "nb030_three F = snd (snd (nb030_consts F))"

text \<open>Lines 353--362 of \<open>nb_kernel030_x86_64_sse\<close>: the reciprocal
  square root of the lanes of \<open>xmm4\<close> is left in \<open>xmm0\<close>. The same
  instructions are at lines 623--632 and 814--823, and, with the slot prefix
  \<open>nb030nf_\<close>, at lines 1328--1337, 1510--1519 and 1639--1648
  (\<open>nb_kernel030nf_x86_64_sse\<close>).\<close>

definition nb030_invsqrt :: "'a fpu \<Rightarrow> 'a nb030_state \<Rightarrow> 'a nb030_state" where
  "nb030_invsqrt F s =
    (let xmm4 = nb030_xmm4 s;
         three = nb030_three F;
         half = nb030_half F;
         xmm5 = rsqrtps F xmm4;
         xmm2 = xmm5;
         xmm5 = mulps F xmm5 xmm5;
         xmm1 = three;
         xmm5 = mulps F xmm5 xmm4;
         xmm0 = half;
         xmm1 = subps F xmm1 xmm5;
         xmm1 = mulps F xmm1 xmm2;
         xmm0 = mulps F xmm0 xmm1
     in s\<lparr>nb030_xmm5 := xmm5, nb030_xmm2 := xmm2, nb030_xmm1 := xmm1,
          nb030_xmm0 := xmm0\<rparr>)"

subsection \<open>\<open>nb_kernel232_x86_64_sse2\<close>\<close>

record 'a nb232_args =
  nb232_p_tabscale :: "'a"
  nb232_argkrf :: "'a"
  nb232_argcrf :: "'a"

record 'a nb232_state =
  nb232_xmm0 :: "'a v2"
  nb232_xmm1 :: "'a v2"
  nb232_xmm2 :: "'a v2"
  nb232_xmm3 :: "'a v2"
  nb232_xmm4 :: "'a v2"
  nb232_xmm5 :: "'a v2"
  nb232_xmm6 :: "'a v2"
  nb232_xmm7 :: "'a v2"

text \<open>Lines 226--239: \<open>half\<close> is the double with the low bits \<open>0x00000000\<close> and the
  high bits \<open>0x3fe00000\<close>, in both lanes; \<open>two\<close> and \<open>three\<close> are made from it by
  additions.  The slots are written here and nowhere else.  The same instructions,
  without the store of \<open>two\<close>, are at lines 2418--2430 (\<open>nb_kernel232nf_x86_64_sse2\<close>).
  The result is \<open>(half, two, three)\<close>.\<close>

definition nb232_consts :: "'a fpu \<Rightarrow> 'a v2 \<times> 'a v2 \<times> 'a v2" where
  "nb232_consts F =
    (let eax = 0x00000000;
         ebx = 0x3fe00000;
         xmm1 = movsd_ld F (\<lambda>_. dbits F eax ebx) 0;
         xmm1 = shufpd xmm1 xmm1 0;
         xmm3 = xmm1;
         xmm3 = addpd F xmm3 xmm3;
         xmm2 = xmm3;
         xmm2 = addpd F xmm2 xmm2;
         xmm3 = addpd F xmm3 xmm2
     in (xmm1, xmm2, xmm3))"

definition nb232_half :: "'a fpu \<Rightarrow> 'a v2" where "nb232_half F = fst (nb232_consts F)"
definition nb232_two :: "'a fpu \<Rightarrow> 'a v2" where "nb232_two F = fst (snd (nb232_consts F))"
definition nb232_three :: "'a fpu \<Rightarrow> 'a v2" where "nb232_three F = snd (snd (nb232_consts F))"

text \<open>Lines 583--618 of \<open>nb_kernel232_x86_64_sse2\<close>: the reciprocal
  square root of the lanes of \<open>xmm0\<close> and \<open>xmm4\<close> is left in
  \<open>xmm1\<close> and \<open>xmm5\<close>. The same instructions are at lines
  624--659, 665--700, 706--741, and, with the slot prefix \<open>nb232nf_\<close>, at
  lines 2738--2773, 2779--2814, 2820--2855, 2861--2896.\<close>

definition nb232_invsqrt :: "'a fpu \<Rightarrow> 'a nb232_state \<Rightarrow> 'a nb232_state" where
  "nb232_invsqrt F s =
    (let xmm0 = nb232_xmm0 s;
         xmm4 = nb232_xmm4 s;
         three = nb232_three F;
         half = nb232_half F;
         xmm1 = cvtpd2ps F xmm0;
         xmm5 = cvtpd2ps F xmm4;
         xmm1 = rsqrtps F xmm1;
         xmm5 = rsqrtps F xmm5;
         xmm1 = cvtps2pd F xmm1;
         xmm5 = cvtps2pd F xmm5;
         xmm2 = xmm1;
         xmm6 = xmm5;
         xmm1 = mulpd F xmm1 xmm1;
         xmm5 = mulpd F xmm5 xmm5;
         xmm3 = three;
         xmm1 = mulpd F xmm1 xmm0;
         xmm5 = mulpd F xmm5 xmm4;
         xmm7 = xmm3;
         xmm3 = subpd F xmm3 xmm1;
         xmm7 = subpd F xmm7 xmm5;
         xmm3 = mulpd F xmm3 xmm2;
         xmm7 = mulpd F xmm7 xmm6;
         xmm3 = mulpd F xmm3 half;
         xmm7 = mulpd F xmm7 half;
         xmm2 = xmm3;
         xmm6 = xmm7;
         xmm3 = mulpd F xmm3 xmm3;
         xmm7 = mulpd F xmm7 xmm7;
         xmm1 = three;
         xmm3 = mulpd F xmm3 xmm0;
         xmm7 = mulpd F xmm7 xmm4;
         xmm5 = xmm1;
         xmm1 = subpd F xmm1 xmm3;
         xmm5 = subpd F xmm5 xmm7;
         xmm1 = mulpd F xmm1 xmm2;
         xmm5 = mulpd F xmm5 xmm6;
         xmm1 = mulpd F xmm1 half;
         xmm5 = mulpd F xmm5 half
     in s\<lparr>nb232_xmm1 := xmm1, nb232_xmm5 := xmm5, nb232_xmm2 := xmm2,
          nb232_xmm6 := xmm6, nb232_xmm3 := xmm3, nb232_xmm7 := xmm7\<rparr>)"

text \<open>Lines 746--764 of \<open>nb_kernel232_x86_64_sse2\<close>: the reciprocal
  square root of the lanes of \<open>xmm0\<close> is left in \<open>xmm1\<close>. The same
  instructions, with the slot prefix \<open>nb232nf_\<close>, are at lines
  2901--2919.\<close>

definition nb232_invsqrt_one :: "'a fpu \<Rightarrow> 'a nb232_state \<Rightarrow> 'a nb232_state" where
  "nb232_invsqrt_one F s =
    (let xmm0 = nb232_xmm0 s;
         three = nb232_three F;
         half = nb232_half F;
         xmm1 = cvtpd2ps F xmm0;
         xmm1 = rsqrtps F xmm1;
         xmm1 = cvtps2pd F xmm1;
         xmm2 = xmm1;
         xmm1 = mulpd F xmm1 xmm1;
         xmm3 = three;
         xmm1 = mulpd F xmm1 xmm0;
         xmm3 = subpd F xmm3 xmm1;
         xmm3 = mulpd F xmm3 xmm2;
         xmm3 = mulpd F xmm3 half;
         xmm2 = xmm3;
         xmm3 = mulpd F xmm3 xmm3;
         xmm1 = three;
         xmm3 = mulpd F xmm3 xmm0;
         xmm1 = subpd F xmm1 xmm3;
         xmm1 = mulpd F xmm1 xmm2;
         xmm1 = mulpd F xmm1 half
     in s\<lparr>nb232_xmm1 := xmm1, nb232_xmm2 := xmm2, nb232_xmm3 := xmm3\<rparr>)"

text \<open>Lines 1452--1487 of \<open>nb_kernel232_x86_64_sse2\<close>: the reciprocal
  square root of the low lanes of \<open>xmm0\<close> and \<open>xmm4\<close> is left in
  the low lanes of \<open>xmm1\<close> and \<open>xmm5\<close>. The same instructions are
  at lines 1493--1528, 1534--1569, 1575--1610, and, with the slot prefix
  \<open>nb232nf_\<close>, at lines 3276--3311, 3317--3352, 3358--3393,
  3399--3434.\<close>

definition nb232_single_invsqrt :: "'a fpu \<Rightarrow> 'a nb232_state \<Rightarrow> 'a nb232_state" where
  "nb232_single_invsqrt F s =
    (let xmm1 = nb232_xmm1 s;
         xmm0 = nb232_xmm0 s;
         xmm5 = nb232_xmm5 s;
         xmm4 = nb232_xmm4 s;
         three = nb232_three F;
         half = nb232_half F;
         xmm1 = cvtsd2ss F xmm1 xmm0;
         xmm5 = cvtsd2ss F xmm5 xmm4;
         xmm1 = rsqrtss F xmm1 xmm1;
         xmm5 = rsqrtss F xmm5 xmm5;
         xmm1 = cvtss2sd F xmm1 xmm1;
         xmm5 = cvtss2sd F xmm5 xmm5;
         xmm2 = xmm1;
         xmm6 = xmm5;
         xmm1 = mulsd F xmm1 (fst xmm1);
         xmm5 = mulsd F xmm5 (fst xmm5);
         xmm3 = three;
         xmm1 = mulsd F xmm1 (fst xmm0);
         xmm5 = mulsd F xmm5 (fst xmm4);
         xmm7 = xmm3;
         xmm3 = subsd F xmm3 (fst xmm1);
         xmm7 = subsd F xmm7 (fst xmm5);
         xmm3 = mulsd F xmm3 (fst xmm2);
         xmm7 = mulsd F xmm7 (fst xmm6);
         xmm3 = mulsd F xmm3 (fst half);
         xmm7 = mulsd F xmm7 (fst half);
         xmm2 = xmm3;
         xmm6 = xmm7;
         xmm3 = mulsd F xmm3 (fst xmm3);
         xmm7 = mulsd F xmm7 (fst xmm7);
         xmm1 = three;
         xmm3 = mulsd F xmm3 (fst xmm0);
         xmm7 = mulsd F xmm7 (fst xmm4);
         xmm5 = xmm1;
         xmm1 = subsd F xmm1 (fst xmm3);
         xmm5 = subsd F xmm5 (fst xmm7);
         xmm1 = mulsd F xmm1 (fst xmm2);
         xmm5 = mulsd F xmm5 (fst xmm6);
         xmm1 = mulsd F xmm1 (fst half);
         xmm5 = mulsd F xmm5 (fst half)
     in s\<lparr>nb232_xmm1 := xmm1, nb232_xmm5 := xmm5, nb232_xmm2 := xmm2,
          nb232_xmm6 := xmm6, nb232_xmm3 := xmm3, nb232_xmm7 := xmm7\<rparr>)"

text \<open>Lines 1615--1633 of \<open>nb_kernel232_x86_64_sse2\<close>: the reciprocal
  square root of the low lane of \<open>xmm0\<close> is left in the low lane of
  \<open>xmm1\<close>. The same instructions, with the slot prefix
  \<open>nb232nf_\<close>, are at lines 3439--3457.\<close>

definition nb232_single_invsqrt_one :: "'a fpu \<Rightarrow> 'a nb232_state \<Rightarrow> 'a nb232_state" where
  "nb232_single_invsqrt_one F s =
    (let xmm1 = nb232_xmm1 s;
         xmm0 = nb232_xmm0 s;
         three = nb232_three F;
         half = nb232_half F;
         xmm1 = cvtsd2ss F xmm1 xmm0;
         xmm1 = rsqrtss F xmm1 xmm1;
         xmm1 = cvtss2sd F xmm1 xmm1;
         xmm2 = xmm1;
         xmm1 = mulsd F xmm1 (fst xmm1);
         xmm3 = three;
         xmm1 = mulsd F xmm1 (fst xmm0);
         xmm3 = subsd F xmm3 (fst xmm1);
         xmm3 = mulsd F xmm3 (fst xmm2);
         xmm3 = mulsd F xmm3 (fst half);
         xmm2 = xmm3;
         xmm3 = mulsd F xmm3 (fst xmm3);
         xmm1 = three;
         xmm3 = mulsd F xmm3 (fst xmm0);
         xmm1 = subsd F xmm1 (fst xmm3);
         xmm1 = mulsd F xmm1 (fst xmm2);
         xmm1 = mulsd F xmm1 (fst half)
     in s\<lparr>nb232_xmm1 := xmm1, nb232_xmm2 := xmm2, nb232_xmm3 := xmm3\<rparr>)"

subsection \<open>\<open>nb_kernel312_x86_64_sse2\<close>\<close>

record 'a nb312_args =
  nb312_VFtab :: "'a fmem"
  nb312_p_tabscale :: "'a"

record 'a nb312_state =
  nb312_xmm0 :: "'a v2"
  nb312_xmm1 :: "'a v2"
  nb312_xmm2 :: "'a v2"
  nb312_xmm3 :: "'a v2"
  nb312_xmm4 :: "'a v2"
  nb312_xmm5 :: "'a v2"
  nb312_xmm6 :: "'a v2"
  nb312_xmm7 :: "'a v2"
  nb312_mm0 :: "mmx"
  nb312_mm1 :: "mmx"
  nb312_mm6 :: "mmx"
  nb312_rax :: "nat"
  nb312_rbx :: "nat"
  nb312_rinvOO :: "'a v2"
  nb312_rsqOO :: "'a v2"
  nb312_qqOO :: "'a v2"
  nb312_vctot :: "'a v2"
  nb312_c6 :: "'a v2"
  nb312_c12 :: "'a v2"
  nb312_Vvdwtot :: "'a v2"
  nb312_dxOO :: "'a v2"
  nb312_dyOO :: "'a v2"
  nb312_dzOO :: "'a v2"
  nb312_fixO :: "'a v2"
  nb312_fiyO :: "'a v2"
  nb312_fizO :: "'a v2"
  nb312_fjxO :: "'a v2"
  nb312_fjyO :: "'a v2"
  nb312_fjzO :: "'a v2"

text \<open>Lines 212--215: the table scale, in both lanes.  The same instructions are at
  lines 2825--2828 (\<open>nb_kernel312nf_x86_64_sse2\<close>).\<close>

definition nb312_tsc :: "'a fpu \<Rightarrow> 'a nb312_args \<Rightarrow> 'a v2" where
  "nb312_tsc F A =
    (let xmm3 = movsd_ld F (\<lambda>_. nb312_p_tabscale A) 0;
         xmm3 = shufpd xmm3 xmm3 0
     in xmm3)"

text \<open>Lines 217--237: the constants, as in \<open>nb_kernel232_x86_64_sse2\<close>, and \<open>six\<close> and
  \<open>twelve\<close>.  The slots are written here and nowhere else.  The result is
  \<open>(half, two, three, six, twelve)\<close>.  \<open>nb_kernel312nf_x86_64_sse2\<close> makes \<open>half\<close> and
  \<open>three\<close> with the same instructions (lines 2831--2843) and has no slots \<open>two\<close>,
  \<open>six\<close> and \<open>twelve\<close>.\<close>

definition nb312_consts :: "'a fpu \<Rightarrow> 'a v2 \<times> 'a v2 \<times> 'a v2 \<times> 'a v2 \<times> 'a v2" where
  "nb312_consts F =
    (let eax = 0x00000000;
         ebx = 0x3fe00000;
         xmm1 = movsd_ld F (\<lambda>_. dbits F eax ebx) 0;
         xmm1 = shufpd xmm1 xmm1 0;
         xmm3 = xmm1;
         xmm3 = addpd F xmm3 xmm3;
         xmm2 = xmm3;
         xmm2 = addpd F xmm2 xmm2;
         xmm3 = addpd F xmm3 xmm2;
         xmm4 = xmm3;
         xmm4 = addpd F xmm4 xmm4;
         xmm5 = xmm4;
         xmm5 = addpd F xmm5 xmm5
     in (xmm1, xmm2, xmm3, xmm4, xmm5))"

definition nb312_half :: "'a fpu \<Rightarrow> 'a v2" where "nb312_half F = fst (nb312_consts F)"
definition nb312_two :: "'a fpu \<Rightarrow> 'a v2" where "nb312_two F = fst (snd (nb312_consts F))"
definition nb312_three :: "'a fpu \<Rightarrow> 'a v2" where
  "nb312_three F = fst (snd (snd (nb312_consts F)))"
definition nb312_six :: "'a fpu \<Rightarrow> 'a v2" where
  "nb312_six F = fst (snd (snd (snd (nb312_consts F))))"
definition nb312_twelve :: "'a fpu \<Rightarrow> 'a v2" where
  "nb312_twelve F = snd (snd (snd (snd (nb312_consts F))))"

text \<open>Lines 582--617 of \<open>nb_kernel312_x86_64_sse2\<close>: the reciprocal
  square root of the lanes of \<open>xmm0\<close> and \<open>xmm4\<close> is left in
  \<open>xmm1\<close> and \<open>xmm5\<close>. The same instructions are at lines
  623--658, 664--699, 705--740, and, with the slot prefix \<open>nb312nf_\<close>, at
  lines 3150--3185, 3191--3226, 3232--3267, 3273--3308.\<close>

definition nb312_invsqrt :: "'a fpu \<Rightarrow> 'a nb312_state \<Rightarrow> 'a nb312_state" where
  "nb312_invsqrt F s =
    (let xmm0 = nb312_xmm0 s;
         xmm4 = nb312_xmm4 s;
         three = nb312_three F;
         half = nb312_half F;
         xmm1 = cvtpd2ps F xmm0;
         xmm5 = cvtpd2ps F xmm4;
         xmm1 = rsqrtps F xmm1;
         xmm5 = rsqrtps F xmm5;
         xmm1 = cvtps2pd F xmm1;
         xmm5 = cvtps2pd F xmm5;
         xmm2 = xmm1;
         xmm6 = xmm5;
         xmm1 = mulpd F xmm1 xmm1;
         xmm5 = mulpd F xmm5 xmm5;
         xmm3 = three;
         xmm1 = mulpd F xmm1 xmm0;
         xmm5 = mulpd F xmm5 xmm4;
         xmm7 = xmm3;
         xmm3 = subpd F xmm3 xmm1;
         xmm7 = subpd F xmm7 xmm5;
         xmm3 = mulpd F xmm3 xmm2;
         xmm7 = mulpd F xmm7 xmm6;
         xmm3 = mulpd F xmm3 half;
         xmm7 = mulpd F xmm7 half;
         xmm2 = xmm3;
         xmm6 = xmm7;
         xmm3 = mulpd F xmm3 xmm3;
         xmm7 = mulpd F xmm7 xmm7;
         xmm1 = three;
         xmm3 = mulpd F xmm3 xmm0;
         xmm7 = mulpd F xmm7 xmm4;
         xmm5 = xmm1;
         xmm1 = subpd F xmm1 xmm3;
         xmm5 = subpd F xmm5 xmm7;
         xmm1 = mulpd F xmm1 xmm2;
         xmm5 = mulpd F xmm5 xmm6;
         xmm1 = mulpd F xmm1 half;
         xmm5 = mulpd F xmm5 half
     in s\<lparr>nb312_xmm1 := xmm1, nb312_xmm5 := xmm5, nb312_xmm2 := xmm2,
          nb312_xmm6 := xmm6, nb312_xmm3 := xmm3, nb312_xmm7 := xmm7\<rparr>)"

text \<open>Lines 745--763 of \<open>nb_kernel312_x86_64_sse2\<close>: the reciprocal
  square root of the lanes of \<open>xmm0\<close> is left in \<open>xmm1\<close>. The same
  instructions, with the slot prefix \<open>nb312nf_\<close>, are at lines
  3313--3331.\<close>

definition nb312_invsqrt_one :: "'a fpu \<Rightarrow> 'a nb312_state \<Rightarrow> 'a nb312_state" where
  "nb312_invsqrt_one F s =
    (let xmm0 = nb312_xmm0 s;
         three = nb312_three F;
         half = nb312_half F;
         xmm1 = cvtpd2ps F xmm0;
         xmm1 = rsqrtps F xmm1;
         xmm1 = cvtps2pd F xmm1;
         xmm2 = xmm1;
         xmm1 = mulpd F xmm1 xmm1;
         xmm3 = three;
         xmm1 = mulpd F xmm1 xmm0;
         xmm3 = subpd F xmm3 xmm1;
         xmm3 = mulpd F xmm3 xmm2;
         xmm3 = mulpd F xmm3 half;
         xmm2 = xmm3;
         xmm3 = mulpd F xmm3 xmm3;
         xmm1 = three;
         xmm3 = mulpd F xmm3 xmm0;
         xmm1 = subpd F xmm1 xmm3;
         xmm1 = mulpd F xmm1 xmm2;
         xmm1 = mulpd F xmm1 half
     in s\<lparr>nb312_xmm1 := xmm1, nb312_xmm2 := xmm2, nb312_xmm3 := xmm3\<rparr>)"

text \<open>Lines 1671--1706 of \<open>nb_kernel312_x86_64_sse2\<close>: the reciprocal
  square root of the low lanes of \<open>xmm0\<close> and \<open>xmm4\<close> is left in
  the low lanes of \<open>xmm1\<close> and \<open>xmm5\<close>. The same instructions are
  at lines 1712--1747, 1753--1788, 1794--1829, and, with the slot prefix
  \<open>nb312nf_\<close>, at lines 3882--3917, 3923--3958, 3964--3999,
  4005--4040.\<close>

definition nb312_single_invsqrt :: "'a fpu \<Rightarrow> 'a nb312_state \<Rightarrow> 'a nb312_state" where
  "nb312_single_invsqrt F s =
    (let xmm1 = nb312_xmm1 s;
         xmm0 = nb312_xmm0 s;
         xmm5 = nb312_xmm5 s;
         xmm4 = nb312_xmm4 s;
         three = nb312_three F;
         half = nb312_half F;
         xmm1 = cvtsd2ss F xmm1 xmm0;
         xmm5 = cvtsd2ss F xmm5 xmm4;
         xmm1 = rsqrtss F xmm1 xmm1;
         xmm5 = rsqrtss F xmm5 xmm5;
         xmm1 = cvtss2sd F xmm1 xmm1;
         xmm5 = cvtss2sd F xmm5 xmm5;
         xmm2 = xmm1;
         xmm6 = xmm5;
         xmm1 = mulsd F xmm1 (fst xmm1);
         xmm5 = mulsd F xmm5 (fst xmm5);
         xmm3 = three;
         xmm1 = mulsd F xmm1 (fst xmm0);
         xmm5 = mulsd F xmm5 (fst xmm4);
         xmm7 = xmm3;
         xmm3 = subsd F xmm3 (fst xmm1);
         xmm7 = subsd F xmm7 (fst xmm5);
         xmm3 = mulsd F xmm3 (fst xmm2);
         xmm7 = mulsd F xmm7 (fst xmm6);
         xmm3 = mulsd F xmm3 (fst half);
         xmm7 = mulsd F xmm7 (fst half);
         xmm2 = xmm3;
         xmm6 = xmm7;
         xmm3 = mulsd F xmm3 (fst xmm3);
         xmm7 = mulsd F xmm7 (fst xmm7);
         xmm1 = three;
         xmm3 = mulsd F xmm3 (fst xmm0);
         xmm7 = mulsd F xmm7 (fst xmm4);
         xmm5 = xmm1;
         xmm1 = subsd F xmm1 (fst xmm3);
         xmm5 = subsd F xmm5 (fst xmm7);
         xmm1 = mulsd F xmm1 (fst xmm2);
         xmm5 = mulsd F xmm5 (fst xmm6);
         xmm1 = mulsd F xmm1 (fst half);
         xmm5 = mulsd F xmm5 (fst half)
     in s\<lparr>nb312_xmm1 := xmm1, nb312_xmm5 := xmm5, nb312_xmm2 := xmm2,
          nb312_xmm6 := xmm6, nb312_xmm3 := xmm3, nb312_xmm7 := xmm7\<rparr>)"

text \<open>Lines 1834--1852 of \<open>nb_kernel312_x86_64_sse2\<close>: the reciprocal
  square root of the low lane of \<open>xmm0\<close> is left in the low lane of
  \<open>xmm1\<close>. The same instructions, with the slot prefix
  \<open>nb312nf_\<close>, are at lines 4045--4063.\<close>

definition nb312_single_invsqrt_one :: "'a fpu \<Rightarrow> 'a nb312_state \<Rightarrow> 'a nb312_state" where
  "nb312_single_invsqrt_one F s =
    (let xmm1 = nb312_xmm1 s;
         xmm0 = nb312_xmm0 s;
         three = nb312_three F;
         half = nb312_half F;
         xmm1 = cvtsd2ss F xmm1 xmm0;
         xmm1 = rsqrtss F xmm1 xmm1;
         xmm1 = cvtss2sd F xmm1 xmm1;
         xmm2 = xmm1;
         xmm1 = mulsd F xmm1 (fst xmm1);
         xmm3 = three;
         xmm1 = mulsd F xmm1 (fst xmm0);
         xmm3 = subsd F xmm3 (fst xmm1);
         xmm3 = mulsd F xmm3 (fst xmm2);
         xmm3 = mulsd F xmm3 (fst half);
         xmm2 = xmm3;
         xmm3 = mulsd F xmm3 (fst xmm3);
         xmm1 = three;
         xmm3 = mulsd F xmm3 (fst xmm0);
         xmm1 = subsd F xmm1 (fst xmm3);
         xmm1 = mulsd F xmm1 (fst xmm2);
         xmm1 = mulsd F xmm1 (fst half)
     in s\<lparr>nb312_xmm1 := xmm1, nb312_xmm2 := xmm2, nb312_xmm3 := xmm3\<rparr>)"

text \<open>Lines 767--816 of \<open>nb_kernel312_x86_64_sse2\<close>, unrolled loop: the
  tabulated Coulomb interaction of the two oxygens. \<open>xmm0\<close> receives the
  reciprocal distance.\<close>

definition nb312_OO_coul :: "'a fpu \<Rightarrow> 'a nb312_args \<Rightarrow> 'a nb312_state \<Rightarrow> 'a nb312_state" where
  "nb312_OO_coul F A s =
    (let rinvOO = nb312_rinvOO s;
         rsqOO = nb312_rsqOO s;
         tsc = nb312_tsc F A;
         rax = nb312_rax s;
         rbx = nb312_rbx s;
         VFtab = nb312_VFtab A;
         two = nb312_two F;
         qqOO = nb312_qqOO s;
         vctot = nb312_vctot s;
         xmm0 = rinvOO;
         xmm1 = xmm0;
         xmm1 = mulpd F xmm1 rsqOO;
         xmm1 = mulpd F xmm1 tsc;
         mm6 = cvttpd2pi F xmm1;
         xmm6 = cvtpi2pd F mm6;
         xmm1 = subpd F xmm1 xmm6;
         xmm2 = xmm1;
         xmm2 = mulpd F xmm2 xmm2;
         mm6 = pslld mm6 2;
         mm0 = movd_mm (word_of_nat rax);
         mm1 = movd_mm (word_of_nat rbx);
         eax = movd mm6;
         mm6 = psrlq32 mm6;
         ebx = movd mm6;
         xmm4 = movapd_ld VFtab (unat eax);
         xmm3 = movapd_ld VFtab (unat ebx);
         xmm5 = xmm4;
         xmm4 = unpcklpd xmm4 xmm3;
         xmm5 = unpckhpd xmm5 xmm3;
         xmm6 = movapd_ld VFtab (unat eax + 2);
         xmm3 = movapd_ld VFtab (unat ebx + 2);
         xmm7 = xmm6;
         xmm6 = unpcklpd xmm6 xmm3;
         xmm7 = unpckhpd xmm7 xmm3;
         xmm6 = mulpd F xmm6 xmm1;
         xmm7 = mulpd F xmm7 xmm2;
         xmm5 = addpd F xmm5 xmm6;
         xmm5 = addpd F xmm5 xmm7;
         xmm7 = mulpd F xmm7 two;
         xmm3 = qqOO;
         xmm7 = addpd F xmm7 xmm6;
         xmm7 = addpd F xmm7 xmm5;
         xmm5 = mulpd F xmm5 xmm1;
         xmm5 = addpd F xmm5 xmm4;
         xmm5 = mulpd F xmm5 xmm3;
         xmm3 = mulpd F xmm3 xmm7;
         xmm5 = addpd F xmm5 vctot;
         xmm2 = xorpd_self F;
         vctot = xmm5;
         xmm3 = mulpd F xmm3 tsc
     in s\<lparr>nb312_xmm0 := xmm0, nb312_xmm1 := xmm1, nb312_mm6 := mm6,
          nb312_xmm6 := xmm6, nb312_xmm2 := xmm2, nb312_mm0 := mm0, nb312_mm1 := mm1,
          nb312_rax := unat eax, nb312_rbx := unat ebx, nb312_xmm4 := xmm4,
          nb312_xmm3 := xmm3, nb312_xmm5 := xmm5, nb312_xmm7 := xmm7, nb312_vctot := vctot\<rparr>)"

text \<open>Lines 819--825: the powers of the reciprocal distance in \<open>xmm0\<close>.
  The same instructions are at lines 3379--3385
  (\<open>nb_kernel312nf_x86_64_sse2\<close>).\<close>

definition nb312_OO_lj_powers :: "'a fpu \<Rightarrow> 'a nb312_state \<Rightarrow> 'a nb312_state" where
  "nb312_OO_lj_powers F s =
    (let xmm0 = nb312_xmm0 s;
         xmm2 = xmm0;
         xmm2 = mulpd F xmm2 xmm2;
         xmm1 = xmm2;
         xmm1 = mulpd F xmm1 xmm2;
         xmm1 = mulpd F xmm1 xmm2;
         xmm2 = xmm1;
         xmm2 = mulpd F xmm2 xmm2
     in s\<lparr>nb312_xmm2 := xmm2, nb312_xmm1 := xmm1\<rparr>)"

text \<open>Lines 826--841.\<close>

definition nb312_OO_lj :: "'a fpu \<Rightarrow> 'a nb312_state \<Rightarrow> 'a nb312_state" where
  "nb312_OO_lj F s =
    (let c6 = nb312_c6 s;
         xmm1 = nb312_xmm1 s;
         c12 = nb312_c12 s;
         xmm2 = nb312_xmm2 s;
         Vvdwtot = nb312_Vvdwtot s;
         six = nb312_six F;
         twelve = nb312_twelve F;
         xmm0 = nb312_xmm0 s;
         xmm3 = nb312_xmm3 s;
         xmm1 = mulpd F xmm1 c6;
         xmm2 = mulpd F xmm2 c12;
         xmm4 = xmm2;
         xmm4 = subpd F xmm4 xmm1;
         xmm4 = addpd F xmm4 Vvdwtot;
         xmm1 = mulpd F xmm1 six;
         xmm2 = mulpd F xmm2 twelve;
         Vvdwtot = xmm4;
         xmm2 = subpd F xmm2 xmm1;
         xmm2 = mulpd F xmm2 xmm0;
         xmm2 = subpd F xmm2 xmm3;
         xmm0 = mulpd F xmm0 xmm2;
         xmm1 = xmm0;
         xmm2 = xmm0
     in s\<lparr>nb312_xmm1 := xmm1, nb312_xmm2 := xmm2, nb312_xmm4 := xmm4,
          nb312_Vvdwtot := Vvdwtot, nb312_xmm0 := xmm0\<rparr>)"

text \<open>Lines 843--860.\<close>

definition nb312_OO_force :: "'a fpu \<Rightarrow> 'a nb312_state \<Rightarrow> 'a nb312_state" where
  "nb312_OO_force F s =
    (let dxOO = nb312_dxOO s;
         xmm0 = nb312_xmm0 s;
         dyOO = nb312_dyOO s;
         xmm1 = nb312_xmm1 s;
         dzOO = nb312_dzOO s;
         xmm2 = nb312_xmm2 s;
         fixO = nb312_fixO s;
         fiyO = nb312_fiyO s;
         fizO = nb312_fizO s;
         xmm3 = xorpd_self F;
         xmm4 = xmm3;
         xmm5 = xmm3;
         xmm0 = mulpd F xmm0 dxOO;
         xmm1 = mulpd F xmm1 dyOO;
         xmm2 = mulpd F xmm2 dzOO;
         xmm3 = subpd F xmm3 xmm0;
         xmm4 = subpd F xmm4 xmm1;
         xmm5 = subpd F xmm5 xmm2;
         xmm0 = addpd F xmm0 fixO;
         xmm1 = addpd F xmm1 fiyO;
         xmm2 = addpd F xmm2 fizO;
         fjxO = xmm3;
         fjyO = xmm4;
         fjzO = xmm5;
         fixO = xmm0;
         fiyO = xmm1;
         fizO = xmm2
     in s\<lparr>nb312_xmm3 := xmm3, nb312_xmm4 := xmm4, nb312_xmm5 := xmm5,
          nb312_xmm0 := xmm0, nb312_xmm1 := xmm1, nb312_xmm2 := xmm2, nb312_fjxO := fjxO,
          nb312_fjyO := fjyO, nb312_fjzO := fjzO, nb312_fixO := fixO, nb312_fiyO := fiyO,
          nb312_fizO := fizO\<rparr>)"

text \<open>Lines 1856--1901, the path for a single j molecule: the tabulated Coulomb
  interaction of the two oxygens, in the low lane.\<close>

definition nb312_single_OO_coul :: "'a fpu \<Rightarrow> 'a nb312_args \<Rightarrow> 'a nb312_state \<Rightarrow> 'a nb312_state" where
  "nb312_single_OO_coul F A s =
    (let rinvOO = nb312_rinvOO s;
         rsqOO = nb312_rsqOO s;
         tsc = nb312_tsc F A;
         rax = nb312_rax s;
         xmm6 = nb312_xmm6 s;
         VFtab = nb312_VFtab A;
         two = nb312_two F;
         qqOO = nb312_qqOO s;
         vctot = nb312_vctot s;
         xmm0 = rinvOO;
         xmm1 = xmm0;
         xmm1 = mulsd F xmm1 (fst rsqOO);
         xmm1 = mulsd F xmm1 (fst tsc);
         mm0 = movd_mm (word_of_nat rax);
         eax = cvttsd2si F xmm1;
         xmm6 = cvtsi2sd F xmm6 eax;
         xmm1 = subsd F xmm1 (fst xmm6);
         xmm2 = xmm1;
         xmm2 = mulsd F xmm2 (fst xmm2);
         eax = push_bit 2 eax;
         xmm4 = movapd_ld VFtab (unat eax);
         xmm3 = xorpd_self F;
         xmm5 = xmm4;
         xmm4 = unpcklpd xmm4 xmm3;
         xmm5 = unpckhpd xmm5 xmm3;
         xmm6 = movapd_ld VFtab (unat eax + 2);
         xmm3 = xorpd_self F;
         xmm7 = xmm6;
         xmm6 = unpcklpd xmm6 xmm3;
         xmm7 = unpckhpd xmm7 xmm3;
         xmm6 = mulsd F xmm6 (fst xmm1);
         xmm7 = mulsd F xmm7 (fst xmm2);
         xmm5 = addsd F xmm5 (fst xmm6);
         xmm5 = addsd F xmm5 (fst xmm7);
         xmm7 = mulsd F xmm7 (fst two);
         xmm3 = qqOO;
         xmm7 = addsd F xmm7 (fst xmm6);
         xmm7 = addsd F xmm7 (fst xmm5);
         xmm5 = mulsd F xmm5 (fst xmm1);
         xmm5 = addsd F xmm5 (fst xmm4);
         xmm5 = mulsd F xmm5 (fst xmm3);
         xmm3 = mulsd F xmm3 (fst xmm7);
         xmm5 = addsd F xmm5 (fst vctot);
         xmm2 = xorpd_self F;
         vctot = movlpd_slot vctot xmm5;
         xmm3 = mulsd F xmm3 (fst tsc)
     in s\<lparr>nb312_xmm0 := xmm0, nb312_xmm1 := xmm1, nb312_mm0 := mm0,
          nb312_rax := unat eax, nb312_xmm6 := xmm6, nb312_xmm2 := xmm2,
          nb312_xmm4 := xmm4, nb312_xmm3 := xmm3, nb312_xmm5 := xmm5, nb312_xmm7 := xmm7,
          nb312_vctot := vctot\<rparr>)"

text \<open>Lines 1904--1910: the powers of the reciprocal distance in the low lane of
  \<open>xmm0\<close>. The same instructions are at lines 4109--4115
  (\<open>nb_kernel312nf_x86_64_sse2\<close>).\<close>

definition nb312_single_OO_lj_powers :: "'a fpu \<Rightarrow> 'a nb312_state \<Rightarrow> 'a nb312_state" where
  "nb312_single_OO_lj_powers F s =
    (let xmm0 = nb312_xmm0 s;
         xmm2 = xmm0;
         xmm2 = mulsd F xmm2 (fst xmm2);
         xmm1 = xmm2;
         xmm1 = mulsd F xmm1 (fst xmm2);
         xmm1 = mulsd F xmm1 (fst xmm2);
         xmm2 = xmm1;
         xmm2 = mulsd F xmm2 (fst xmm2)
     in s\<lparr>nb312_xmm2 := xmm2, nb312_xmm1 := xmm1\<rparr>)"

text \<open>Lines 1911--1926.\<close>

definition nb312_single_OO_lj :: "'a fpu \<Rightarrow> 'a nb312_state \<Rightarrow> 'a nb312_state" where
  "nb312_single_OO_lj F s =
    (let c6 = nb312_c6 s;
         xmm1 = nb312_xmm1 s;
         c12 = nb312_c12 s;
         xmm2 = nb312_xmm2 s;
         Vvdwtot = nb312_Vvdwtot s;
         six = nb312_six F;
         twelve = nb312_twelve F;
         xmm0 = nb312_xmm0 s;
         xmm3 = nb312_xmm3 s;
         xmm1 = mulsd F xmm1 (fst c6);
         xmm2 = mulsd F xmm2 (fst c12);
         xmm4 = xmm2;
         xmm4 = subsd F xmm4 (fst xmm1);
         xmm4 = addsd F xmm4 (fst Vvdwtot);
         xmm1 = mulsd F xmm1 (fst six);
         xmm2 = mulsd F xmm2 (fst twelve);
         Vvdwtot = movlpd_slot Vvdwtot xmm4;
         xmm2 = subsd F xmm2 (fst xmm1);
         xmm2 = mulsd F xmm2 (fst xmm0);
         xmm2 = subsd F xmm2 (fst xmm3);
         xmm0 = mulsd F xmm0 (fst xmm2);
         xmm1 = xmm0;
         xmm2 = xmm0
     in s\<lparr>nb312_xmm1 := xmm1, nb312_xmm2 := xmm2, nb312_xmm4 := xmm4,
          nb312_Vvdwtot := Vvdwtot, nb312_xmm0 := xmm0\<rparr>)"

text \<open>Lines 1928--1945.\<close>

definition nb312_single_OO_force :: "'a fpu \<Rightarrow> 'a nb312_state \<Rightarrow> 'a nb312_state" where
  "nb312_single_OO_force F s =
    (let dxOO = nb312_dxOO s;
         xmm0 = nb312_xmm0 s;
         dyOO = nb312_dyOO s;
         xmm1 = nb312_xmm1 s;
         dzOO = nb312_dzOO s;
         xmm2 = nb312_xmm2 s;
         fixO = nb312_fixO s;
         fiyO = nb312_fiyO s;
         fizO = nb312_fizO s;
         fjxO = nb312_fjxO s;
         fjyO = nb312_fjyO s;
         fjzO = nb312_fjzO s;
         xmm3 = xorpd_self F;
         xmm4 = xmm3;
         xmm5 = xmm3;
         xmm0 = mulpd F xmm0 dxOO;
         xmm1 = mulpd F xmm1 dyOO;
         xmm2 = mulpd F xmm2 dzOO;
         xmm3 = subsd F xmm3 (fst xmm0);
         xmm4 = subsd F xmm4 (fst xmm1);
         xmm5 = subsd F xmm5 (fst xmm2);
         xmm0 = addsd F xmm0 (fst fixO);
         xmm1 = addsd F xmm1 (fst fiyO);
         xmm2 = addsd F xmm2 (fst fizO);
         fjxO = movlpd_slot fjxO xmm3;
         fjyO = movlpd_slot fjyO xmm4;
         fjzO = movlpd_slot fjzO xmm5;
         fixO = movlpd_slot fixO xmm0;
         fiyO = movlpd_slot fiyO xmm1;
         fizO = movlpd_slot fizO xmm2
     in s\<lparr>nb312_xmm3 := xmm3, nb312_xmm4 := xmm4, nb312_xmm5 := xmm5,
          nb312_xmm0 := xmm0, nb312_xmm1 := xmm1, nb312_xmm2 := xmm2, nb312_fjxO := fjxO,
          nb312_fjyO := fjyO, nb312_fjzO := fjzO, nb312_fixO := fixO, nb312_fiyO := fiyO,
          nb312_fizO := fizO\<rparr>)"

text \<open>Lines 3335--3376 of \<open>nb_kernel312nf_x86_64_sse2\<close>, the kernel
  without forces, unrolled loop. Its stack slots have the names of
  \<open>nb_kernel312_x86_64_sse2\<close> with the prefix \<open>nb312nf_\<close>; the
  state record is shared.\<close>

definition nb312nf_OO_coul :: "'a fpu \<Rightarrow> 'a nb312_args \<Rightarrow> 'a nb312_state \<Rightarrow> 'a nb312_state" where
  "nb312nf_OO_coul F A s =
    (let rinvOO = nb312_rinvOO s;
         rsqOO = nb312_rsqOO s;
         tsc = nb312_tsc F A;
         VFtab = nb312_VFtab A;
         qqOO = nb312_qqOO s;
         vctot = nb312_vctot s;
         xmm0 = rinvOO;
         xmm1 = xmm0;
         xmm1 = mulpd F xmm1 rsqOO;
         xmm1 = mulpd F xmm1 tsc;
         mm6 = cvttpd2pi F xmm1;
         xmm6 = cvtpi2pd F mm6;
         xmm1 = subpd F xmm1 xmm6;
         xmm2 = xmm1;
         xmm2 = mulpd F xmm2 xmm2;
         mm6 = pslld mm6 2;
         eax = movd mm6;
         mm6 = psrlq32 mm6;
         ebx = movd mm6;
         xmm4 = movapd_ld VFtab (unat eax);
         xmm3 = movapd_ld VFtab (unat ebx);
         xmm5 = xmm4;
         xmm4 = unpcklpd xmm4 xmm3;
         xmm5 = unpckhpd xmm5 xmm3;
         xmm6 = movapd_ld VFtab (unat eax + 2);
         xmm3 = movapd_ld VFtab (unat ebx + 2);
         xmm7 = xmm6;
         xmm6 = unpcklpd xmm6 xmm3;
         xmm7 = unpckhpd xmm7 xmm3;
         xmm6 = mulpd F xmm6 xmm1;
         xmm7 = mulpd F xmm7 xmm2;
         xmm5 = addpd F xmm5 xmm6;
         xmm5 = addpd F xmm5 xmm7;
         xmm3 = qqOO;
         xmm5 = mulpd F xmm5 xmm1;
         xmm5 = addpd F xmm5 xmm4;
         xmm5 = mulpd F xmm5 xmm3;
         xmm5 = addpd F xmm5 vctot;
         vctot = xmm5
     in s\<lparr>nb312_xmm0 := xmm0, nb312_xmm1 := xmm1, nb312_mm6 := mm6,
          nb312_xmm6 := xmm6, nb312_xmm2 := xmm2, nb312_rax := unat eax,
          nb312_rbx := unat ebx, nb312_xmm4 := xmm4, nb312_xmm3 := xmm3,
          nb312_xmm5 := xmm5, nb312_xmm7 := xmm7, nb312_vctot := vctot\<rparr>)"

text \<open>Lines 3386--3391.\<close>

definition nb312nf_OO_lj :: "'a fpu \<Rightarrow> 'a nb312_state \<Rightarrow> 'a nb312_state" where
  "nb312nf_OO_lj F s =
    (let c6 = nb312_c6 s;
         xmm1 = nb312_xmm1 s;
         c12 = nb312_c12 s;
         xmm2 = nb312_xmm2 s;
         Vvdwtot = nb312_Vvdwtot s;
         xmm1 = mulpd F xmm1 c6;
         xmm2 = mulpd F xmm2 c12;
         xmm4 = xmm2;
         xmm4 = subpd F xmm4 xmm1;
         xmm4 = addpd F xmm4 Vvdwtot;
         Vvdwtot = xmm4
     in s\<lparr>nb312_xmm1 := xmm1, nb312_xmm2 := xmm2, nb312_xmm4 := xmm4,
          nb312_Vvdwtot := Vvdwtot\<rparr>)"

text \<open>Lines 4067--4106, the path for a single j molecule.\<close>

definition nb312nf_single_OO_coul :: "'a fpu \<Rightarrow> 'a nb312_args \<Rightarrow> 'a nb312_state \<Rightarrow> 'a nb312_state" where
  "nb312nf_single_OO_coul F A s =
    (let rinvOO = nb312_rinvOO s;
         rsqOO = nb312_rsqOO s;
         tsc = nb312_tsc F A;
         rax = nb312_rax s;
         xmm6 = nb312_xmm6 s;
         VFtab = nb312_VFtab A;
         qqOO = nb312_qqOO s;
         vctot = nb312_vctot s;
         xmm0 = rinvOO;
         xmm1 = xmm0;
         xmm1 = mulsd F xmm1 (fst rsqOO);
         xmm1 = mulsd F xmm1 (fst tsc);
         mm0 = movd_mm (word_of_nat rax);
         eax = cvttsd2si F xmm1;
         xmm6 = cvtsi2sd F xmm6 eax;
         xmm1 = subsd F xmm1 (fst xmm6);
         xmm2 = xmm1;
         xmm2 = mulsd F xmm2 (fst xmm2);
         eax = push_bit 2 eax;
         xmm4 = movapd_ld VFtab (unat eax);
         xmm3 = xorpd_self F;
         xmm5 = xmm4;
         xmm4 = unpcklpd xmm4 xmm3;
         xmm5 = unpckhpd xmm5 xmm3;
         xmm6 = movapd_ld VFtab (unat eax + 2);
         xmm3 = xorpd_self F;
         xmm7 = xmm6;
         xmm6 = unpcklpd xmm6 xmm3;
         xmm7 = unpckhpd xmm7 xmm3;
         xmm6 = mulsd F xmm6 (fst xmm1);
         xmm7 = mulsd F xmm7 (fst xmm2);
         xmm5 = addsd F xmm5 (fst xmm6);
         xmm5 = addsd F xmm5 (fst xmm7);
         xmm3 = qqOO;
         xmm5 = mulsd F xmm5 (fst xmm1);
         xmm5 = addsd F xmm5 (fst xmm4);
         xmm5 = mulsd F xmm5 (fst xmm3);
         xmm5 = addsd F xmm5 (fst vctot);
         vctot = movlpd_slot vctot xmm5
     in s\<lparr>nb312_xmm0 := xmm0, nb312_xmm1 := xmm1, nb312_mm0 := mm0,
          nb312_rax := unat eax, nb312_xmm6 := xmm6, nb312_xmm2 := xmm2,
          nb312_xmm4 := xmm4, nb312_xmm3 := xmm3, nb312_xmm5 := xmm5, nb312_xmm7 := xmm7,
          nb312_vctot := vctot\<rparr>)"

text \<open>Lines 4116--4121.\<close>

definition nb312nf_single_OO_lj :: "'a fpu \<Rightarrow> 'a nb312_state \<Rightarrow> 'a nb312_state" where
  "nb312nf_single_OO_lj F s =
    (let c6 = nb312_c6 s;
         xmm1 = nb312_xmm1 s;
         c12 = nb312_c12 s;
         xmm2 = nb312_xmm2 s;
         Vvdwtot = nb312_Vvdwtot s;
         xmm1 = mulsd F xmm1 (fst c6);
         xmm2 = mulsd F xmm2 (fst c12);
         xmm4 = xmm2;
         xmm4 = subsd F xmm4 (fst xmm1);
         xmm4 = addsd F xmm4 (fst Vvdwtot);
         Vvdwtot = movlpd_slot Vvdwtot xmm4
     in s\<lparr>nb312_xmm1 := xmm1, nb312_xmm2 := xmm2, nb312_xmm4 := xmm4,
          nb312_Vvdwtot := Vvdwtot\<rparr>)"

subsection \<open>\<open>nb_kernel030_x86_64_sse2\<close>\<close>

record 'a nb030_sse2_state =
  nb030_sse2_xmm0 :: "'a v2"
  nb030_sse2_xmm1 :: "'a v2"
  nb030_sse2_xmm2 :: "'a v2"
  nb030_sse2_xmm4 :: "'a v2"
  nb030_sse2_xmm5 :: "'a v2"

text \<open>Lines 3867--3880 of the file \<open>nb_kernel232_x86_64_sse2.s\<close>: the constants, with the
  instructions of \<open>nb_kernel232_x86_64_sse2\<close>.  The same instructions, without the store
  of \<open>two\<close>, are at lines 4588--4600 (\<open>nb_kernel030nf_x86_64_sse2\<close>).\<close>

definition nb030_sse2_consts :: "'a fpu \<Rightarrow> 'a v2 \<times> 'a v2 \<times> 'a v2" where
  "nb030_sse2_consts F =
    (let eax = 0x00000000;
         ebx = 0x3fe00000;
         xmm1 = movsd_ld F (\<lambda>_. dbits F eax ebx) 0;
         xmm1 = shufpd xmm1 xmm1 0;
         xmm3 = xmm1;
         xmm3 = addpd F xmm3 xmm3;
         xmm2 = xmm3;
         xmm2 = addpd F xmm2 xmm2;
         xmm3 = addpd F xmm3 xmm2
     in (xmm1, xmm2, xmm3))"

definition nb030_sse2_half :: "'a fpu \<Rightarrow> 'a v2" where
  "nb030_sse2_half F = fst (nb030_sse2_consts F)"
definition nb030_sse2_two :: "'a fpu \<Rightarrow> 'a v2" where
  "nb030_sse2_two F = fst (snd (nb030_sse2_consts F))"
definition nb030_sse2_three :: "'a fpu \<Rightarrow> 'a v2" where
  "nb030_sse2_three F = snd (snd (nb030_sse2_consts F))"

text \<open>Lines 4046--4067 of \<open>nb_kernel030_x86_64_sse2\<close>: the reciprocal
  square root of the lanes of \<open>xmm4\<close> is left in \<open>xmm0\<close>. The same
  instructions, with the slot prefix \<open>nb030nf_\<close>, are at lines 4758--4779
  (\<open>nb_kernel030nf_x86_64_sse2\<close>).\<close>

definition nb030_sse2_invsqrt :: "'a fpu \<Rightarrow> 'a nb030_sse2_state \<Rightarrow> 'a nb030_sse2_state" where
  "nb030_sse2_invsqrt F s =
    (let xmm4 = nb030_sse2_xmm4 s;
         three = nb030_sse2_three F;
         half = nb030_sse2_half F;
         xmm5 = cvtpd2ps F xmm4;
         xmm5 = rsqrtps F xmm5;
         xmm2 = cvtps2pd F xmm5;
         xmm5 = xmm2;
         xmm2 = mulpd F xmm2 xmm2;
         xmm1 = three;
         xmm2 = mulpd F xmm2 xmm4;
         xmm0 = half;
         xmm1 = subpd F xmm1 xmm2;
         xmm1 = mulpd F xmm1 xmm5;
         xmm1 = mulpd F xmm1 xmm0;
         xmm5 = xmm1;
         xmm1 = mulpd F xmm1 xmm1;
         xmm2 = three;
         xmm1 = mulpd F xmm1 xmm4;
         xmm0 = half;
         xmm2 = subpd F xmm2 xmm1;
         xmm2 = mulpd F xmm2 xmm5;
         xmm0 = mulpd F xmm0 xmm2
     in s\<lparr>nb030_sse2_xmm5 := xmm5, nb030_sse2_xmm2 := xmm2, nb030_sse2_xmm1 := xmm1,
          nb030_sse2_xmm0 := xmm0\<rparr>)"

text \<open>Lines 4263--4284 of \<open>nb_kernel030_x86_64_sse2\<close>: the reciprocal
  square root of the low lane of \<open>xmm4\<close> is left in the low lane of
  \<open>xmm0\<close>. The same instructions, with the slot prefix
  \<open>nb030nf_\<close>, are at lines 4915--4936
  (\<open>nb_kernel030nf_x86_64_sse2\<close>).\<close>

definition nb030_sse2_single_invsqrt :: "'a fpu \<Rightarrow> 'a nb030_sse2_state \<Rightarrow> 'a nb030_sse2_state" where
  "nb030_sse2_single_invsqrt F s =
    (let xmm5 = nb030_sse2_xmm5 s;
         xmm4 = nb030_sse2_xmm4 s;
         xmm2 = nb030_sse2_xmm2 s;
         three = nb030_sse2_three F;
         half = nb030_sse2_half F;
         xmm5 = cvtsd2ss F xmm5 xmm4;
         xmm5 = rsqrtss F xmm5 xmm5;
         xmm2 = cvtss2sd F xmm2 xmm5;
         xmm5 = xmm2;
         xmm2 = mulsd F xmm2 (fst xmm2);
         xmm1 = three;
         xmm2 = mulsd F xmm2 (fst xmm4);
         xmm0 = half;
         xmm1 = subsd F xmm1 (fst xmm2);
         xmm1 = mulsd F xmm1 (fst xmm5);
         xmm1 = mulsd F xmm1 (fst xmm0);
         xmm5 = xmm1;
         xmm1 = mulsd F xmm1 (fst xmm1);
         xmm2 = three;
         xmm1 = mulsd F xmm1 (fst xmm4);
         xmm0 = half;
         xmm2 = subsd F xmm2 (fst xmm1);
         xmm2 = mulsd F xmm2 (fst xmm5);
         xmm0 = mulsd F xmm0 (fst xmm2)
     in s\<lparr>nb030_sse2_xmm5 := xmm5, nb030_sse2_xmm2 := xmm2, nb030_sse2_xmm1 := xmm1,
          nb030_sse2_xmm0 := xmm0\<rparr>)"

section \<open>The thread loop\<close>




















section \<open>Definitions in the words of the specification\<close>

text \<open>The Newton-Raphson refinement step for the reciprocal square root of \<open>x\<close>, from the
  estimate \<open>y\<close>, in real numbers.\<close>

definition nr_step :: "real \<Rightarrow> real \<Rightarrow> real" where
  "nr_step x y = 0.5 * (3 - x * y * y) * y"

text \<open>The same step in the operations of the machine, with the constants \<open>half\<close> and
  \<open>three\<close> and one operation for each operator of the formula: in single precision,
  in double precision, and in double precision with \<open>half\<close> as the first factor.\<close>

definition nr_step_ps :: "'a fpu \<Rightarrow> 'a \<Rightarrow> 'a \<Rightarrow> 'a \<Rightarrow> 'a \<Rightarrow> 'a" where
  "nr_step_ps F half three x y = fmul F half (fmul F (fsub F three (fmul F (fmul F y y) x)) y)"

definition nr_step_pd :: "'a fpu \<Rightarrow> 'a \<Rightarrow> 'a \<Rightarrow> 'a \<Rightarrow> 'a \<Rightarrow> 'a" where
  "nr_step_pd F half three x y = dmul F (dmul F (dsub F three (dmul F (dmul F y y) x)) y) half"

definition nr_step_pd_half_first :: "'a fpu \<Rightarrow> 'a \<Rightarrow> 'a \<Rightarrow> 'a \<Rightarrow> 'a \<Rightarrow> 'a" where
  "nr_step_pd_half_first F half three x y =
     dmul F half (dmul F (dsub F three (dmul F (dmul F y y) x)) y)"

text \<open>The reciprocal distance from the squared distance \<open>x\<close>: the estimate of the
  hardware and one step in single precision; in double precision the single precision
  estimate of the rounded \<open>x\<close>, converted back, and two steps.\<close>

definition rinv_single :: "'a fpu \<Rightarrow> 'a \<Rightarrow> 'a \<Rightarrow> 'a \<Rightarrow> 'a" where
  "rinv_single F half three x = nr_step_ps F half three x (frsqrt F x)"

definition rinv_double :: "'a fpu \<Rightarrow> 'a \<Rightarrow> 'a \<Rightarrow> 'a \<Rightarrow> 'a" where
  "rinv_double F half three x =
    (let y0 = s2d F (frsqrt F (d2s F x));
         y1 = nr_step_pd F half three x y0
     in nr_step_pd F half three x y1)"

definition rinv_double_030 :: "'a fpu \<Rightarrow> 'a \<Rightarrow> 'a \<Rightarrow> 'a \<Rightarrow> 'a" where
  "rinv_double_030 F half three x =
    (let y0 = s2d F (frsqrt F (d2s F x));
         y1 = nr_step_pd F half three x y0
     in nr_step_pd_half_first F half three x y1)"

text \<open>The constants as the kernels make them: \<open>one = half + half\<close>, \<open>two = one + one\<close>,
  \<open>three = one + two\<close>.\<close>

definition half_single :: "'a fpu \<Rightarrow> 'a" where
  "half_single F = fbits F 0x3f000000"

definition three_single :: "'a fpu \<Rightarrow> 'a" where
  "three_single F =
    (let one = fadd F (half_single F) (half_single F); two = fadd F one one in fadd F one two)"

definition half_double :: "'a fpu \<Rightarrow> 'a" where
  "half_double F = dbits F 0x00000000 0x3fe00000"

definition three_double :: "'a fpu \<Rightarrow> 'a" where
  "three_double F =
    (let one = dadd F (half_double F) (half_double F); two = dadd F one one in dadd F one two)"

text \<open>The Lennard-Jones interaction in the operations of the machine, from the reciprocal
  distance \<open>r\<close>: the sixth power is \<open>(r2 * r2) * r2\<close> with \<open>r2 = r * r\<close>, the twelfth
  power its square; the energy is \<open>r12 * c12 - r6 * c6\<close>; the force term is
  \<open>((r12 * c12) * twelve - (r6 * c6) * six) * r\<close>.\<close>

definition lj_r6 :: "'a fpu \<Rightarrow> 'a \<Rightarrow> 'a" where
  "lj_r6 F r = (let r2 = dmul F r r in dmul F (dmul F r2 r2) r2)"

definition lj_r12 :: "'a fpu \<Rightarrow> 'a \<Rightarrow> 'a" where
  "lj_r12 F r = dmul F (lj_r6 F r) (lj_r6 F r)"

definition lj_energy :: "'a fpu \<Rightarrow> 'a \<Rightarrow> 'a \<Rightarrow> 'a \<Rightarrow> 'a" where
  "lj_energy F c6 c12 r = dsub F (dmul F (lj_r12 F r) c12) (dmul F (lj_r6 F r) c6)"

definition lj_force :: "'a fpu \<Rightarrow> 'a \<Rightarrow> 'a \<Rightarrow> 'a \<Rightarrow> 'a \<Rightarrow> 'a \<Rightarrow> 'a" where
  "lj_force F six twelve c6 c12 r =
     dmul F (dsub F (dmul F (dmul F (lj_r12 F r) c12) twelve)
                    (dmul F (dmul F (lj_r6 F r) c6) six)) r"

text \<open>The constants \<open>six = three + three\<close> and \<open>twelve = six + six\<close> of
  \<open>nb_kernel312_x86_64_sse2\<close>.\<close>

definition six_double :: "'a fpu \<Rightarrow> 'a" where
  "six_double F = dadd F (three_double F) (three_double F)"

definition twelve_double :: "'a fpu \<Rightarrow> 'a" where
  "twelve_double F = dadd F (six_double F) (six_double F)"

section \<open>Lanes and constants\<close>

lemmas lane_defs = l0_def l1_def l2_def l3_def

lemmas sse_defs = addps_def subps_def mulps_def addss_def subss_def mulss_def xorps_self_def
  movss_ld_def movlps_ld_def movhps_ld_def movss_st_def movlps_st_def movhps_st_def
  movss_slot_def movss_ld_slot_def lane4_def shufps_def movhlps_def movlhps_def unpcklps_def
  unpckhps_def rsqrtps_def cvttps2pi_def cvtpi2ps_def pslld_def psrlq32_def movd_def
  movd_mm_def map_v4_def

lemmas sse2_defs = addpd_def subpd_def mulpd_def addsd_def subsd_def mulsd_def xorpd_self_def
  movsd_ld_def movsd_ld_slot_def movsd_rr_def movsd_slot_def movsd_st_def movlpd_slot_def
  movhpd_slot_def movlpd_ld_slot_def movhpd_ld_slot_def movlpd_ld_def movhpd_ld_def
  movlpd_st_def movhpd_st_def movapd_ld_def shufpd_def unpcklpd_def unpckhpd_def
  cvtpd2ps_def cvtps2pd_def cvtsd2ss_def rsqrtss_def cvtss2sd_def cvttsd2si_def cvtsi2sd_def
  cvttpd2pi_def cvtpi2pd_def map_v2_def rsqrtps_def pslld_def psrlq32_def movd_def movd_mm_def

lemma lane_simps [simp]:
  "l0 (a, b, c, d) = a" "l1 (a, b, c, d) = b" "l2 (a, b, c, d) = c" "l3 (a, b, c, d) = d"
  by (simp_all add: lane_defs)

lemma exact_ops [simp]:
  "fadd (exact_fpu rs) x y = x + y" "fsub (exact_fpu rs) x y = x - y"
  "fmul (exact_fpu rs) x y = x * y" "frsqrt (exact_fpu rs) x = rs x"
  "dadd (exact_fpu rs) x y = x + y" "dsub (exact_fpu rs) x y = x - y"
  "dmul (exact_fpu rs) x y = x * y" "d2s (exact_fpu rs) x = x" "s2d (exact_fpu rs) x = x"
  "fcvtt (exact_fpu rs) x = cvtt x" "dcvtt (exact_fpu rs) x = cvtt x"
  "fcvti (exact_fpu rs) w = real_of_int (sint w)" "dcvti (exact_fpu rs) w = real_of_int (sint w)"
  by (simp_all add: exact_fpu_def)

lemma exact_bits [simp]:
  "fbits (exact_fpu rs) 0x3f000000 = 1 / 2" "fbits (exact_fpu rs) 0 = 0"
  "dbits (exact_fpu rs) 0 0x3fe00000 = 1 / 2" "dbits (exact_fpu rs) 0 0 = 0"
  by (simp_all add: exact_fpu_def ieee_value_def Let_def power_int_minus)

lemma exact_consts:
  "half_single (exact_fpu rs) = 1 / 2" "three_single (exact_fpu rs) = 3"
  "half_double (exact_fpu rs) = 1 / 2" "three_double (exact_fpu rs) = 3"
  by (simp_all add: half_single_def three_single_def half_double_def three_double_def Let_def)

lemma nb030_consts_val:
  "nb030_half F = (half_single F, half_single F, half_single F, half_single F)"
  "nb030_three F = (three_single F, three_single F, three_single F, three_single F)"
  by (simp_all add: nb030_half_def nb030_three_def nb030_consts_def Let_def sse_defs
      half_single_def three_single_def)

lemma nb232_consts_val:
  "nb232_half F = (half_double F, half_double F)"
  "nb232_three F = (three_double F, three_double F)"
  by (simp_all add: nb232_half_def nb232_three_def nb232_consts_def Let_def sse2_defs
      half_double_def three_double_def)

lemma nb312_consts_val:
  "nb312_half F = (half_double F, half_double F)"
  "nb312_three F = (three_double F, three_double F)"
  by (simp_all add: nb312_half_def nb312_three_def nb312_consts_def Let_def sse2_defs
      half_double_def three_double_def)

lemma nb030_sse2_consts_val:
  "nb030_sse2_half F = (half_double F, half_double F)"
  "nb030_sse2_three F = (three_double F, three_double F)"
  by (simp_all add: nb030_sse2_half_def nb030_sse2_three_def nb030_sse2_consts_def Let_def
      sse2_defs half_double_def three_double_def)

lemma rinv_exact:
  "rinv_single (exact_fpu rs) (1 / 2) 3 x = nr_step x (rs x)"
  "rinv_double (exact_fpu rs) (1 / 2) 3 x = nr_step x (nr_step x (rs x))"
  "rinv_double_030 (exact_fpu rs) (1 / 2) 3 x = nr_step x (nr_step x (rs x))"
  by (simp_all add: rinv_single_def rinv_double_def rinv_double_030_def nr_step_ps_def
      nr_step_pd_def nr_step_pd_half_first_def nr_step_def Let_def mult.commute
      mult.left_commute)

subsection \<open>The thread loop\<close>






































section \<open>The oxygen-oxygen interaction of \<open>nb_kernel312_x86_64_sse2\<close>\<close>

lemma lane2_simps [simp]:
  "lane2 (a, b) 0 = a" "i \<noteq> 0 \<Longrightarrow> lane2 (a, b) i = b"
  by (simp_all add: lane2_def)

lemma lane2_pd:
  "lane2 (addpd F a b) i = dadd F (lane2 a i) (lane2 b i)"
  "lane2 (subpd F a b) i = dsub F (lane2 a i) (lane2 b i)"
  "lane2 (mulpd F a b) i = dmul F (lane2 a i) (lane2 b i)"
  "lane2 (xorpd_self F) i = dbits F 0 0"
  by (simp_all add: lane2_def sse2_defs)

lemma lane2_map_v2: "lane2 (map_v2 f v) i = f (lane2 v i)"
  by (simp add: lane2_def map_v2_def)

lemma nb312_six_twelve:
  "nb312_six F = (six_double F, six_double F)"
  "nb312_twelve F = (twelve_double F, twelve_double F)"
  by (simp_all add: nb312_six_def nb312_twelve_def nb312_consts_def Let_def sse2_defs
      six_double_def twelve_double_def three_double_def half_double_def)

lemma exact_six_twelve:
  "six_double (exact_fpu rs) = 6" "twelve_double (exact_fpu rs) = 12"
  by (simp_all add: six_double_def twelve_double_def exact_consts)

lemma lj_exact:
  "lj_r6 (exact_fpu rs) r = r ^ 6" "lj_r12 (exact_fpu rs) r = r ^ 12"
  "lj_energy (exact_fpu rs) c6 c12 r = c12 * r ^ 12 - c6 * r ^ 6"
  "dmul (exact_fpu rs) r (dsub (exact_fpu rs) (lj_force (exact_fpu rs) 6 12 c6 c12 r) f) =
     (12 * c12 * r ^ 12 - 6 * c6 * r ^ 6) * r ^ 2 - f * r"
  by (simp_all add: lj_r6_def lj_r12_def lj_energy_def lj_force_def Let_def
      power_numeral_reduce algebra_simps)

text \<open>What the stages before the Lennard-Jones part leave for it.\<close>

lemma nb312_OO_coul_keeps:
  "nb312_xmm0 (nb312_OO_coul F A s) = nb312_rinvOO s"
  "nb312_c6 (nb312_OO_coul F A s) = nb312_c6 s"
  "nb312_c12 (nb312_OO_coul F A s) = nb312_c12 s"
  "nb312_Vvdwtot (nb312_OO_coul F A s) = nb312_Vvdwtot s"
  "nb312_dxOO (nb312_OO_coul F A s) = nb312_dxOO s"
  "nb312_dyOO (nb312_OO_coul F A s) = nb312_dyOO s"
  "nb312_dzOO (nb312_OO_coul F A s) = nb312_dzOO s"
  "nb312_fixO (nb312_OO_coul F A s) = nb312_fixO s"
  "nb312_fiyO (nb312_OO_coul F A s) = nb312_fiyO s"
  "nb312_fizO (nb312_OO_coul F A s) = nb312_fizO s"
  by (simp_all add: nb312_OO_coul_def Let_def)

lemma nb312_single_OO_coul_keeps:
  "nb312_xmm0 (nb312_single_OO_coul F A s) = nb312_rinvOO s"
  "nb312_c6 (nb312_single_OO_coul F A s) = nb312_c6 s"
  "nb312_c12 (nb312_single_OO_coul F A s) = nb312_c12 s"
  "nb312_Vvdwtot (nb312_single_OO_coul F A s) = nb312_Vvdwtot s"
  "nb312_dxOO (nb312_single_OO_coul F A s) = nb312_dxOO s"
  "nb312_dyOO (nb312_single_OO_coul F A s) = nb312_dyOO s"
  "nb312_dzOO (nb312_single_OO_coul F A s) = nb312_dzOO s"
  "nb312_fixO (nb312_single_OO_coul F A s) = nb312_fixO s"
  "nb312_fiyO (nb312_single_OO_coul F A s) = nb312_fiyO s"
  "nb312_fizO (nb312_single_OO_coul F A s) = nb312_fizO s"
  by (simp_all add: nb312_single_OO_coul_def Let_def)

lemma nb312nf_OO_coul_keeps:
  "nb312_xmm0 (nb312nf_OO_coul F A s) = nb312_rinvOO s"
  "nb312_c6 (nb312nf_OO_coul F A s) = nb312_c6 s"
  "nb312_c12 (nb312nf_OO_coul F A s) = nb312_c12 s"
  "nb312_Vvdwtot (nb312nf_OO_coul F A s) = nb312_Vvdwtot s"
  by (simp_all add: nb312nf_OO_coul_def Let_def)

lemma nb312nf_single_OO_coul_keeps:
  "nb312_xmm0 (nb312nf_single_OO_coul F A s) = nb312_rinvOO s"
  "nb312_c6 (nb312nf_single_OO_coul F A s) = nb312_c6 s"
  "nb312_c12 (nb312nf_single_OO_coul F A s) = nb312_c12 s"
  "nb312_Vvdwtot (nb312nf_single_OO_coul F A s) = nb312_Vvdwtot s"
  by (simp_all add: nb312nf_single_OO_coul_def Let_def)

lemma nb312_OO_lj_powers_eff:
  "nb312_xmm1 (nb312_OO_lj_powers F s) = map_v2 (lj_r6 F) (nb312_xmm0 s)"
  "nb312_xmm2 (nb312_OO_lj_powers F s) = map_v2 (lj_r12 F) (nb312_xmm0 s)"
  "nb312_xmm0 (nb312_OO_lj_powers F s) = nb312_xmm0 s"
  "nb312_xmm3 (nb312_OO_lj_powers F s) = nb312_xmm3 s"
  "nb312_c6 (nb312_OO_lj_powers F s) = nb312_c6 s"
  "nb312_c12 (nb312_OO_lj_powers F s) = nb312_c12 s"
  "nb312_Vvdwtot (nb312_OO_lj_powers F s) = nb312_Vvdwtot s"
  "nb312_dxOO (nb312_OO_lj_powers F s) = nb312_dxOO s"
  "nb312_dyOO (nb312_OO_lj_powers F s) = nb312_dyOO s"
  "nb312_dzOO (nb312_OO_lj_powers F s) = nb312_dzOO s"
  "nb312_fixO (nb312_OO_lj_powers F s) = nb312_fixO s"
  "nb312_fiyO (nb312_OO_lj_powers F s) = nb312_fiyO s"
  "nb312_fizO (nb312_OO_lj_powers F s) = nb312_fizO s"
  by (simp_all add: nb312_OO_lj_powers_def Let_def sse2_defs lj_r6_def lj_r12_def)

lemma nb312_single_OO_lj_powers_eff:
  "fst (nb312_xmm1 (nb312_single_OO_lj_powers F s)) = lj_r6 F (fst (nb312_xmm0 s))"
  "fst (nb312_xmm2 (nb312_single_OO_lj_powers F s)) = lj_r12 F (fst (nb312_xmm0 s))"
  "nb312_xmm0 (nb312_single_OO_lj_powers F s) = nb312_xmm0 s"
  "nb312_xmm3 (nb312_single_OO_lj_powers F s) = nb312_xmm3 s"
  "nb312_c6 (nb312_single_OO_lj_powers F s) = nb312_c6 s"
  "nb312_c12 (nb312_single_OO_lj_powers F s) = nb312_c12 s"
  "nb312_Vvdwtot (nb312_single_OO_lj_powers F s) = nb312_Vvdwtot s"
  "nb312_dxOO (nb312_single_OO_lj_powers F s) = nb312_dxOO s"
  "nb312_dyOO (nb312_single_OO_lj_powers F s) = nb312_dyOO s"
  "nb312_dzOO (nb312_single_OO_lj_powers F s) = nb312_dzOO s"
  "nb312_fixO (nb312_single_OO_lj_powers F s) = nb312_fixO s"
  "nb312_fiyO (nb312_single_OO_lj_powers F s) = nb312_fiyO s"
  "nb312_fizO (nb312_single_OO_lj_powers F s) = nb312_fizO s"
  by (simp_all add: nb312_single_OO_lj_powers_def Let_def sse2_defs lj_r6_def lj_r12_def)

lemma nb312_OO_lj_eff:
  "lane2 (nb312_Vvdwtot (nb312_OO_lj F s)) i =
     dadd F (dsub F (dmul F (lane2 (nb312_xmm2 s) i) (lane2 (nb312_c12 s) i))
                    (dmul F (lane2 (nb312_xmm1 s) i) (lane2 (nb312_c6 s) i)))
       (lane2 (nb312_Vvdwtot s) i)"
  "lane2 (nb312_xmm0 (nb312_OO_lj F s)) i =
     dmul F (lane2 (nb312_xmm0 s) i)
       (dsub F
         (dmul F (dsub F (dmul F (dmul F (lane2 (nb312_xmm2 s) i) (lane2 (nb312_c12 s) i))
                                 (twelve_double F))
                         (dmul F (dmul F (lane2 (nb312_xmm1 s) i) (lane2 (nb312_c6 s) i))
                                 (six_double F)))
                 (lane2 (nb312_xmm0 s) i))
         (lane2 (nb312_xmm3 s) i))"
  "nb312_xmm1 (nb312_OO_lj F s) = nb312_xmm0 (nb312_OO_lj F s)"
  "nb312_xmm2 (nb312_OO_lj F s) = nb312_xmm0 (nb312_OO_lj F s)"
  "nb312_dxOO (nb312_OO_lj F s) = nb312_dxOO s"
  "nb312_dyOO (nb312_OO_lj F s) = nb312_dyOO s"
  "nb312_dzOO (nb312_OO_lj F s) = nb312_dzOO s"
  "nb312_fixO (nb312_OO_lj F s) = nb312_fixO s"
  "nb312_fiyO (nb312_OO_lj F s) = nb312_fiyO s"
  "nb312_fizO (nb312_OO_lj F s) = nb312_fizO s"
  by (simp_all add: nb312_OO_lj_def Let_def sse2_defs lane2_def nb312_six_twelve)

lemma nb312_single_OO_lj_eff:
  "nb312_Vvdwtot (nb312_single_OO_lj F s) =
     (dadd F (dsub F (dmul F (fst (nb312_xmm2 s)) (fst (nb312_c12 s)))
                     (dmul F (fst (nb312_xmm1 s)) (fst (nb312_c6 s))))
        (fst (nb312_Vvdwtot s)), snd (nb312_Vvdwtot s))"
  "fst (nb312_xmm0 (nb312_single_OO_lj F s)) =
     dmul F (fst (nb312_xmm0 s))
       (dsub F
         (dmul F (dsub F (dmul F (dmul F (fst (nb312_xmm2 s)) (fst (nb312_c12 s)))
                                 (twelve_double F))
                         (dmul F (dmul F (fst (nb312_xmm1 s)) (fst (nb312_c6 s)))
                                 (six_double F)))
                 (fst (nb312_xmm0 s)))
         (fst (nb312_xmm3 s)))"
  "nb312_xmm1 (nb312_single_OO_lj F s) = nb312_xmm0 (nb312_single_OO_lj F s)"
  "nb312_xmm2 (nb312_single_OO_lj F s) = nb312_xmm0 (nb312_single_OO_lj F s)"
  "nb312_dxOO (nb312_single_OO_lj F s) = nb312_dxOO s"
  "nb312_dyOO (nb312_single_OO_lj F s) = nb312_dyOO s"
  "nb312_dzOO (nb312_single_OO_lj F s) = nb312_dzOO s"
  "nb312_fixO (nb312_single_OO_lj F s) = nb312_fixO s"
  "nb312_fiyO (nb312_single_OO_lj F s) = nb312_fiyO s"
  "nb312_fizO (nb312_single_OO_lj F s) = nb312_fizO s"
  by (simp_all add: nb312_single_OO_lj_def Let_def sse2_defs nb312_six_twelve)

lemma nb312nf_OO_lj_eff:
  "lane2 (nb312_Vvdwtot (nb312nf_OO_lj F s)) i =
     dadd F (dsub F (dmul F (lane2 (nb312_xmm2 s) i) (lane2 (nb312_c12 s) i))
                    (dmul F (lane2 (nb312_xmm1 s) i) (lane2 (nb312_c6 s) i)))
       (lane2 (nb312_Vvdwtot s) i)"
  by (simp add: nb312nf_OO_lj_def Let_def sse2_defs lane2_def)

lemma nb312nf_single_OO_lj_eff:
  "nb312_Vvdwtot (nb312nf_single_OO_lj F s) =
     (dadd F (dsub F (dmul F (fst (nb312_xmm2 s)) (fst (nb312_c12 s)))
                     (dmul F (fst (nb312_xmm1 s)) (fst (nb312_c6 s))))
        (fst (nb312_Vvdwtot s)), snd (nb312_Vvdwtot s))"
  by (simp add: nb312nf_single_OO_lj_def Let_def sse2_defs)

lemma nb312_OO_force_eff:
  "lane2 (nb312_fixO (nb312_OO_force F s)) i =
     dadd F (dmul F (lane2 (nb312_xmm0 s) i) (lane2 (nb312_dxOO s) i)) (lane2 (nb312_fixO s) i)"
  "lane2 (nb312_fiyO (nb312_OO_force F s)) i =
     dadd F (dmul F (lane2 (nb312_xmm1 s) i) (lane2 (nb312_dyOO s) i)) (lane2 (nb312_fiyO s) i)"
  "lane2 (nb312_fizO (nb312_OO_force F s)) i =
     dadd F (dmul F (lane2 (nb312_xmm2 s) i) (lane2 (nb312_dzOO s) i)) (lane2 (nb312_fizO s) i)"
  "lane2 (nb312_fjxO (nb312_OO_force F s)) i =
     dsub F (dbits F 0 0) (dmul F (lane2 (nb312_xmm0 s) i) (lane2 (nb312_dxOO s) i))"
  "lane2 (nb312_fjyO (nb312_OO_force F s)) i =
     dsub F (dbits F 0 0) (dmul F (lane2 (nb312_xmm1 s) i) (lane2 (nb312_dyOO s) i))"
  "lane2 (nb312_fjzO (nb312_OO_force F s)) i =
     dsub F (dbits F 0 0) (dmul F (lane2 (nb312_xmm2 s) i) (lane2 (nb312_dzOO s) i))"
  by (simp_all add: nb312_OO_force_def Let_def sse2_defs lane2_def)

lemma nb312_single_OO_force_eff:
  "fst (nb312_fixO (nb312_single_OO_force F s)) =
     dadd F (dmul F (fst (nb312_xmm0 s)) (fst (nb312_dxOO s))) (fst (nb312_fixO s))"
  "fst (nb312_fiyO (nb312_single_OO_force F s)) =
     dadd F (dmul F (fst (nb312_xmm1 s)) (fst (nb312_dyOO s))) (fst (nb312_fiyO s))"
  "fst (nb312_fizO (nb312_single_OO_force F s)) =
     dadd F (dmul F (fst (nb312_xmm2 s)) (fst (nb312_dzOO s))) (fst (nb312_fizO s))"
  "fst (nb312_fjxO (nb312_single_OO_force F s)) =
     dsub F (dbits F 0 0) (dmul F (fst (nb312_xmm0 s)) (fst (nb312_dxOO s)))"
  "fst (nb312_fjyO (nb312_single_OO_force F s)) =
     dsub F (dbits F 0 0) (dmul F (fst (nb312_xmm1 s)) (fst (nb312_dyOO s)))"
  "fst (nb312_fjzO (nb312_single_OO_force F s)) =
     dsub F (dbits F 0 0) (dmul F (fst (nb312_xmm2 s)) (fst (nb312_dzOO s)))"
  by (simp_all add: nb312_single_OO_force_def Let_def sse2_defs)

section \<open>The reciprocal square root\<close>

text \<open>
  Claim C6.  In every kernel of the source the reciprocal distance is the estimate of
  \<open>rsqrtps\<close> or \<open>rsqrtss\<close> refined by Newton-Raphson steps of the form
  \<open>half * ((three - (y * y) * x) * y)\<close>, every operator of which is one operation of the
  machine: one step in the single precision kernels (\<open>nb_kernel030_x86_64_sse\<close> and its
  \<open>nf\<close> variant, three blocks each), two steps in the double precision kernels, where the
  estimate is taken of \<open>x\<close> converted to single precision and converted back
  (\<open>nb_kernel232_x86_64_sse2\<close>, \<open>nb_kernel312_x86_64_sse2\<close>,
  \<open>nb_kernel030_x86_64_sse2\<close> and their \<open>nf\<close> variants, in the unrolled loop and in the
  path for a single j).  The constants are \<open>half\<close>, given by its bits, and
  \<open>three = (half + half) + ((half + half) + (half + half))\<close>.  With exact operations
  \<open>half\<close> is \<open>1/2\<close>, \<open>three\<close> is \<open>3\<close> and a step is \<open>nr_step\<close>.
\<close>

theorem invsqrt_newton_raphson_steps:
  "nb030_xmm0 (nb030_invsqrt F s) =
     map_v4 (rinv_single F (half_single F) (three_single F)) (nb030_xmm4 s) \<and>
   nb232_xmm1 (nb232_invsqrt F t) =
     map_v2 (rinv_double F (half_double F) (three_double F)) (nb232_xmm0 t) \<and>
   nb232_xmm5 (nb232_invsqrt F t) =
     map_v2 (rinv_double F (half_double F) (three_double F)) (nb232_xmm4 t) \<and>
   nb232_xmm1 (nb232_invsqrt_one F t) =
     map_v2 (rinv_double F (half_double F) (three_double F)) (nb232_xmm0 t) \<and>
   fst (nb232_xmm1 (nb232_single_invsqrt F t)) =
     rinv_double F (half_double F) (three_double F) (fst (nb232_xmm0 t)) \<and>
   fst (nb232_xmm5 (nb232_single_invsqrt F t)) =
     rinv_double F (half_double F) (three_double F) (fst (nb232_xmm4 t)) \<and>
   fst (nb232_xmm1 (nb232_single_invsqrt_one F t)) =
     rinv_double F (half_double F) (three_double F) (fst (nb232_xmm0 t)) \<and>
   nb312_xmm1 (nb312_invsqrt F u) =
     map_v2 (rinv_double F (half_double F) (three_double F)) (nb312_xmm0 u) \<and>
   nb312_xmm5 (nb312_invsqrt F u) =
     map_v2 (rinv_double F (half_double F) (three_double F)) (nb312_xmm4 u) \<and>
   nb312_xmm1 (nb312_invsqrt_one F u) =
     map_v2 (rinv_double F (half_double F) (three_double F)) (nb312_xmm0 u) \<and>
   fst (nb312_xmm1 (nb312_single_invsqrt F u)) =
     rinv_double F (half_double F) (three_double F) (fst (nb312_xmm0 u)) \<and>
   fst (nb312_xmm5 (nb312_single_invsqrt F u)) =
     rinv_double F (half_double F) (three_double F) (fst (nb312_xmm4 u)) \<and>
   fst (nb312_xmm1 (nb312_single_invsqrt_one F u)) =
     rinv_double F (half_double F) (three_double F) (fst (nb312_xmm0 u)) \<and>
   nb030_sse2_xmm0 (nb030_sse2_invsqrt F v) =
     map_v2 (rinv_double_030 F (half_double F) (three_double F)) (nb030_sse2_xmm4 v) \<and>
   fst (nb030_sse2_xmm0 (nb030_sse2_single_invsqrt F v)) =
     rinv_double_030 F (half_double F) (three_double F) (fst (nb030_sse2_xmm4 v)) \<and>
   nb030_half F = (half_single F, half_single F, half_single F, half_single F) \<and>
   nb030_three F = (three_single F, three_single F, three_single F, three_single F) \<and>
   nb232_half F = (half_double F, half_double F) \<and>
   nb232_three F = (three_double F, three_double F) \<and>
   nb312_half F = (half_double F, half_double F) \<and>
   nb312_three F = (three_double F, three_double F) \<and>
   nb030_sse2_half F = (half_double F, half_double F) \<and>
   nb030_sse2_three F = (three_double F, three_double F) \<and>
   half_single (exact_fpu rs) = 1 / 2 \<and> three_single (exact_fpu rs) = 3 \<and>
   half_double (exact_fpu rs) = 1 / 2 \<and> three_double (exact_fpu rs) = 3 \<and>
   rinv_single (exact_fpu rs) (1 / 2) 3 x = nr_step x (rs x) \<and>
   rinv_double (exact_fpu rs) (1 / 2) 3 x = nr_step x (nr_step x (rs x)) \<and>
   rinv_double_030 (exact_fpu rs) (1 / 2) 3 x = nr_step x (nr_step x (rs x)) \<and>
   nr_step x y = y * (1.5 - 0.5 * x * y * y)"
proof -
  note step = rinv_single_def rinv_double_def rinv_double_030_def nr_step_ps_def
    nr_step_pd_def nr_step_pd_half_first_def Let_def
  have k030: "nb030_xmm0 (nb030_invsqrt F s) =
      map_v4 (rinv_single F (half_single F) (three_single F)) (nb030_xmm4 s)"
    by (simp add: nb030_invsqrt_def nb030_consts_val sse_defs step)
  have k232:
    "nb232_xmm1 (nb232_invsqrt F t) =
       map_v2 (rinv_double F (half_double F) (three_double F)) (nb232_xmm0 t)"
    "nb232_xmm5 (nb232_invsqrt F t) =
       map_v2 (rinv_double F (half_double F) (three_double F)) (nb232_xmm4 t)"
    by (simp_all add: nb232_invsqrt_def nb232_consts_val sse2_defs step)
  have k232_one: "nb232_xmm1 (nb232_invsqrt_one F t) =
       map_v2 (rinv_double F (half_double F) (three_double F)) (nb232_xmm0 t)"
    by (simp add: nb232_invsqrt_one_def nb232_consts_val sse2_defs step)
  have k232_single:
    "fst (nb232_xmm1 (nb232_single_invsqrt F t)) =
       rinv_double F (half_double F) (three_double F) (fst (nb232_xmm0 t))"
    "fst (nb232_xmm5 (nb232_single_invsqrt F t)) =
       rinv_double F (half_double F) (three_double F) (fst (nb232_xmm4 t))"
    by (simp_all add: nb232_single_invsqrt_def nb232_consts_val sse2_defs step)
  have k232_single_one: "fst (nb232_xmm1 (nb232_single_invsqrt_one F t)) =
       rinv_double F (half_double F) (three_double F) (fst (nb232_xmm0 t))"
    by (simp add: nb232_single_invsqrt_one_def nb232_consts_val sse2_defs step)
  have k312:
    "nb312_xmm1 (nb312_invsqrt F u) =
       map_v2 (rinv_double F (half_double F) (three_double F)) (nb312_xmm0 u)"
    "nb312_xmm5 (nb312_invsqrt F u) =
       map_v2 (rinv_double F (half_double F) (three_double F)) (nb312_xmm4 u)"
    by (simp_all add: nb312_invsqrt_def nb312_consts_val sse2_defs step)
  have k312_one: "nb312_xmm1 (nb312_invsqrt_one F u) =
       map_v2 (rinv_double F (half_double F) (three_double F)) (nb312_xmm0 u)"
    by (simp add: nb312_invsqrt_one_def nb312_consts_val sse2_defs step)
  have k312_single:
    "fst (nb312_xmm1 (nb312_single_invsqrt F u)) =
       rinv_double F (half_double F) (three_double F) (fst (nb312_xmm0 u))"
    "fst (nb312_xmm5 (nb312_single_invsqrt F u)) =
       rinv_double F (half_double F) (three_double F) (fst (nb312_xmm4 u))"
    by (simp_all add: nb312_single_invsqrt_def nb312_consts_val sse2_defs step)
  have k312_single_one: "fst (nb312_xmm1 (nb312_single_invsqrt_one F u)) =
       rinv_double F (half_double F) (three_double F) (fst (nb312_xmm0 u))"
    by (simp add: nb312_single_invsqrt_one_def nb312_consts_val sse2_defs step)
  have k030d:
    "nb030_sse2_xmm0 (nb030_sse2_invsqrt F v) =
       map_v2 (rinv_double_030 F (half_double F) (three_double F)) (nb030_sse2_xmm4 v)"
    "fst (nb030_sse2_xmm0 (nb030_sse2_single_invsqrt F v)) =
       rinv_double_030 F (half_double F) (three_double F) (fst (nb030_sse2_xmm4 v))"
    by (simp_all add: nb030_sse2_invsqrt_def nb030_sse2_single_invsqrt_def
        nb030_sse2_consts_val sse2_defs step)
  have form: "nr_step x y = y * (1.5 - 0.5 * x * y * y)"
    by (simp add: nr_step_def algebra_simps)
  show ?thesis
    using k030 k232 k232_one k232_single k232_single_one k312 k312_one k312_single
      k312_single_one k030d form
    by (simp only: nb030_consts_val nb232_consts_val nb312_consts_val nb030_sse2_consts_val
        exact_consts rinv_exact simp_thms)
qed

section \<open>The thread loop distributes the entries\<close>




section \<open>Lennard-Jones interaction by repeated multiplication\<close>

text \<open>
  Claim C5.  The plain Lennard-Jones interaction occurs in \<open>nb_kernel312_x86_64_sse2\<close> and
  \<open>nb_kernel312nf_x86_64_sse2\<close>, between the two oxygens, in the unrolled loop and in the
  path for a single j molecule.  In all four places, with the reciprocal distance \<open>r\<close>
  read from the slot \<open>rinvOO\<close>: the sixth power is made as \<open>(r2 * r2) * r2\<close> with
  \<open>r2 = r * r\<close> and the twelfth as its square, four multiplications of the machine; the
  van der Waals total grows by \<open>r12 * c12 - r6 * c6\<close>; and in the kernel with forces the
  force on the oxygen of the i molecule grows by the displacement times
  \<open>r * (((r12 * c12) * twelve - (r6 * c6) * six) * r - fijC)\<close>, where \<open>fijC\<close> is the term of
  the tabulated Coulomb interaction left in \<open>xmm3\<close>.  Every operator is one operation of
  the machine.  With exact operations these are \<open>c12 * r ^ 12 - c6 * r ^ 6\<close> and
  \<open>(12 * c12 * r ^ 12 - 6 * c6 * r ^ 6) * r ^ 2 - fijC * r\<close>.
\<close>

theorem nb312_OO_lennard_jones:
  "(let r = lane2 (nb312_rinvOO s) i;
        c6 = lane2 (nb312_c6 s) i;
        c12 = lane2 (nb312_c12 s) i;
        s1 = nb312_OO_coul F A s;
        s2 = nb312_OO_lj_powers F s1;
        s3 = nb312_OO_lj F s2;
        s4 = nb312_OO_force F s3;
        fscal = dmul F r (dsub F (lj_force F (six_double F) (twelve_double F) c6 c12 r)
                                 (lane2 (nb312_xmm3 s1) i))
    in lane2 (nb312_xmm1 s2) i = lj_r6 F r \<and>
       lane2 (nb312_xmm2 s2) i = lj_r12 F r \<and>
       lane2 (nb312_Vvdwtot s3) i = dadd F (lj_energy F c6 c12 r) (lane2 (nb312_Vvdwtot s) i) \<and>
       lane2 (nb312_fixO s4) i =
         dadd F (dmul F fscal (lane2 (nb312_dxOO s) i)) (lane2 (nb312_fixO s) i) \<and>
       lane2 (nb312_fiyO s4) i =
         dadd F (dmul F fscal (lane2 (nb312_dyOO s) i)) (lane2 (nb312_fiyO s) i) \<and>
       lane2 (nb312_fizO s4) i =
         dadd F (dmul F fscal (lane2 (nb312_dzOO s) i)) (lane2 (nb312_fizO s) i)) \<and>
   (let r = fst (nb312_rinvOO s);
        c6 = fst (nb312_c6 s);
        c12 = fst (nb312_c12 s);
        s1 = nb312_single_OO_coul F A s;
        s2 = nb312_single_OO_lj_powers F s1;
        s3 = nb312_single_OO_lj F s2;
        s4 = nb312_single_OO_force F s3;
        fscal = dmul F r (dsub F (lj_force F (six_double F) (twelve_double F) c6 c12 r)
                                 (fst (nb312_xmm3 s1)))
    in fst (nb312_xmm1 s2) = lj_r6 F r \<and>
       fst (nb312_xmm2 s2) = lj_r12 F r \<and>
       nb312_Vvdwtot s3 =
         (dadd F (lj_energy F c6 c12 r) (fst (nb312_Vvdwtot s)), snd (nb312_Vvdwtot s)) \<and>
       fst (nb312_fixO s4) = dadd F (dmul F fscal (fst (nb312_dxOO s))) (fst (nb312_fixO s)) \<and>
       fst (nb312_fiyO s4) = dadd F (dmul F fscal (fst (nb312_dyOO s))) (fst (nb312_fiyO s)) \<and>
       fst (nb312_fizO s4) = dadd F (dmul F fscal (fst (nb312_dzOO s))) (fst (nb312_fizO s))) \<and>
   (let r = lane2 (nb312_rinvOO s) i;
        s2 = nb312_OO_lj_powers F (nb312nf_OO_coul F A s);
        s3 = nb312nf_OO_lj F s2
    in lane2 (nb312_xmm1 s2) i = lj_r6 F r \<and>
       lane2 (nb312_xmm2 s2) i = lj_r12 F r \<and>
       lane2 (nb312_Vvdwtot s3) i =
         dadd F (lj_energy F (lane2 (nb312_c6 s) i) (lane2 (nb312_c12 s) i) r)
           (lane2 (nb312_Vvdwtot s) i)) \<and>
   (let r = fst (nb312_rinvOO s);
        s2 = nb312_single_OO_lj_powers F (nb312nf_single_OO_coul F A s);
        s3 = nb312nf_single_OO_lj F s2
    in fst (nb312_xmm1 s2) = lj_r6 F r \<and>
       fst (nb312_xmm2 s2) = lj_r12 F r \<and>
       nb312_Vvdwtot s3 =
         (dadd F (lj_energy F (fst (nb312_c6 s)) (fst (nb312_c12 s)) r) (fst (nb312_Vvdwtot s)),
          snd (nb312_Vvdwtot s))) \<and>
   lj_r6 F x = dmul F (dmul F (dmul F x x) (dmul F x x)) (dmul F x x) \<and>
   lj_r12 F x = dmul F (lj_r6 F x) (lj_r6 F x) \<and>
   nb312_six F = (six_double F, six_double F) \<and>
   nb312_twelve F = (twelve_double F, twelve_double F) \<and>
   six_double (exact_fpu rs) = 6 \<and> twelve_double (exact_fpu rs) = 12 \<and>
   lj_r6 (exact_fpu rs) y = y ^ 6 \<and> lj_r12 (exact_fpu rs) y = y ^ 12 \<and>
   lj_energy (exact_fpu rs) a b y = b * y ^ 12 - a * y ^ 6 \<and>
   dmul (exact_fpu rs) y (dsub (exact_fpu rs) (lj_force (exact_fpu rs) 6 12 a b y) f) =
     (12 * b * y ^ 12 - 6 * a * y ^ 6) * y ^ 2 - f * y"
proof -
  have unrolled_pw:
    "lane2 (nb312_xmm1 (nb312_OO_lj_powers F (nb312_OO_coul F A s))) i
       = lj_r6 F (lane2 (nb312_rinvOO s) i)"
    "lane2 (nb312_xmm2 (nb312_OO_lj_powers F (nb312_OO_coul F A s))) i
       = lj_r12 F (lane2 (nb312_rinvOO s) i)"
    by (simp_all add: nb312_OO_lj_powers_eff nb312_OO_coul_keeps lane2_map_v2)
  have unrolled_V:
    "lane2 (nb312_Vvdwtot (nb312_OO_lj F (nb312_OO_lj_powers F (nb312_OO_coul F A s)))) i =
       dadd F (lj_energy F (lane2 (nb312_c6 s) i) (lane2 (nb312_c12 s) i)
                 (lane2 (nb312_rinvOO s) i)) (lane2 (nb312_Vvdwtot s) i)"
    by (simp add: nb312_OO_lj_eff lane2_map_v2 nb312_OO_lj_powers_eff nb312_OO_coul_keeps
        lj_energy_def)
  have unrolled_fs:
    "lane2 (nb312_xmm0 (nb312_OO_lj F (nb312_OO_lj_powers F (nb312_OO_coul F A s)))) i =
       dmul F (lane2 (nb312_rinvOO s) i)
         (dsub F (lj_force F (six_double F) (twelve_double F) (lane2 (nb312_c6 s) i)
                    (lane2 (nb312_c12 s) i) (lane2 (nb312_rinvOO s) i))
                 (lane2 (nb312_xmm3 (nb312_OO_coul F A s)) i))"
    by (simp add: nb312_OO_lj_eff lane2_map_v2 nb312_OO_lj_powers_eff nb312_OO_coul_keeps
        lj_force_def)
  have unrolled_f:
    "lane2 (nb312_fixO (nb312_OO_force F (nb312_OO_lj F (nb312_OO_lj_powers F
        (nb312_OO_coul F A s))))) i =
       dadd F (dmul F (lane2 (nb312_xmm0 (nb312_OO_lj F (nb312_OO_lj_powers F
          (nb312_OO_coul F A s)))) i) (lane2 (nb312_dxOO s) i)) (lane2 (nb312_fixO s) i)"
    "lane2 (nb312_fiyO (nb312_OO_force F (nb312_OO_lj F (nb312_OO_lj_powers F
        (nb312_OO_coul F A s))))) i =
       dadd F (dmul F (lane2 (nb312_xmm0 (nb312_OO_lj F (nb312_OO_lj_powers F
          (nb312_OO_coul F A s)))) i) (lane2 (nb312_dyOO s) i)) (lane2 (nb312_fiyO s) i)"
    "lane2 (nb312_fizO (nb312_OO_force F (nb312_OO_lj F (nb312_OO_lj_powers F
        (nb312_OO_coul F A s))))) i =
       dadd F (dmul F (lane2 (nb312_xmm0 (nb312_OO_lj F (nb312_OO_lj_powers F
          (nb312_OO_coul F A s)))) i) (lane2 (nb312_dzOO s) i)) (lane2 (nb312_fizO s) i)"
    by (simp_all add: nb312_OO_force_eff nb312_OO_lj_eff nb312_OO_lj_powers_eff
        nb312_OO_coul_keeps)
  have single_pw:
    "fst (nb312_xmm1 (nb312_single_OO_lj_powers F (nb312_single_OO_coul F A s)))
       = lj_r6 F (fst (nb312_rinvOO s))"
    "fst (nb312_xmm2 (nb312_single_OO_lj_powers F (nb312_single_OO_coul F A s)))
       = lj_r12 F (fst (nb312_rinvOO s))"
    by (simp_all add: nb312_single_OO_lj_powers_eff nb312_single_OO_coul_keeps)
  have single_V:
    "nb312_Vvdwtot (nb312_single_OO_lj F (nb312_single_OO_lj_powers F
        (nb312_single_OO_coul F A s))) =
       (dadd F (lj_energy F (fst (nb312_c6 s)) (fst (nb312_c12 s)) (fst (nb312_rinvOO s)))
          (fst (nb312_Vvdwtot s)), snd (nb312_Vvdwtot s))"
    by (simp add: nb312_single_OO_lj_eff single_pw nb312_single_OO_lj_powers_eff
        nb312_single_OO_coul_keeps lj_energy_def)
  have single_fs:
    "fst (nb312_xmm0 (nb312_single_OO_lj F (nb312_single_OO_lj_powers F
        (nb312_single_OO_coul F A s)))) =
       dmul F (fst (nb312_rinvOO s))
         (dsub F (lj_force F (six_double F) (twelve_double F) (fst (nb312_c6 s))
                    (fst (nb312_c12 s)) (fst (nb312_rinvOO s)))
                 (fst (nb312_xmm3 (nb312_single_OO_coul F A s))))"
    by (simp add: nb312_single_OO_lj_eff single_pw nb312_single_OO_lj_powers_eff
        nb312_single_OO_coul_keeps lj_force_def)
  have single_f:
    "fst (nb312_fixO (nb312_single_OO_force F (nb312_single_OO_lj F
        (nb312_single_OO_lj_powers F (nb312_single_OO_coul F A s))))) =
       dadd F (dmul F (fst (nb312_xmm0 (nb312_single_OO_lj F (nb312_single_OO_lj_powers F
          (nb312_single_OO_coul F A s))))) (fst (nb312_dxOO s))) (fst (nb312_fixO s))"
    "fst (nb312_fiyO (nb312_single_OO_force F (nb312_single_OO_lj F
        (nb312_single_OO_lj_powers F (nb312_single_OO_coul F A s))))) =
       dadd F (dmul F (fst (nb312_xmm0 (nb312_single_OO_lj F (nb312_single_OO_lj_powers F
          (nb312_single_OO_coul F A s))))) (fst (nb312_dyOO s))) (fst (nb312_fiyO s))"
    "fst (nb312_fizO (nb312_single_OO_force F (nb312_single_OO_lj F
        (nb312_single_OO_lj_powers F (nb312_single_OO_coul F A s))))) =
       dadd F (dmul F (fst (nb312_xmm0 (nb312_single_OO_lj F (nb312_single_OO_lj_powers F
          (nb312_single_OO_coul F A s))))) (fst (nb312_dzOO s))) (fst (nb312_fizO s))"
    by (simp_all add: nb312_single_OO_force_eff nb312_single_OO_lj_eff
        nb312_single_OO_lj_powers_eff nb312_single_OO_coul_keeps)
  have nf_pw:
    "lane2 (nb312_xmm1 (nb312_OO_lj_powers F (nb312nf_OO_coul F A s))) i
       = lj_r6 F (lane2 (nb312_rinvOO s) i)"
    "lane2 (nb312_xmm2 (nb312_OO_lj_powers F (nb312nf_OO_coul F A s))) i
       = lj_r12 F (lane2 (nb312_rinvOO s) i)"
    by (simp_all add: nb312_OO_lj_powers_eff nb312nf_OO_coul_keeps lane2_map_v2)
  have nf_V:
    "lane2 (nb312_Vvdwtot (nb312nf_OO_lj F (nb312_OO_lj_powers F (nb312nf_OO_coul F A s)))) i =
       dadd F (lj_energy F (lane2 (nb312_c6 s) i) (lane2 (nb312_c12 s) i)
                 (lane2 (nb312_rinvOO s) i)) (lane2 (nb312_Vvdwtot s) i)"
    by (simp add: nb312nf_OO_lj_eff lane2_map_v2 nb312_OO_lj_powers_eff nb312nf_OO_coul_keeps
        lj_energy_def)
  have nfs_pw:
    "fst (nb312_xmm1 (nb312_single_OO_lj_powers F (nb312nf_single_OO_coul F A s)))
       = lj_r6 F (fst (nb312_rinvOO s))"
    "fst (nb312_xmm2 (nb312_single_OO_lj_powers F (nb312nf_single_OO_coul F A s)))
       = lj_r12 F (fst (nb312_rinvOO s))"
    by (simp_all add: nb312_single_OO_lj_powers_eff nb312nf_single_OO_coul_keeps)
  have nfs_V:
    "nb312_Vvdwtot (nb312nf_single_OO_lj F (nb312_single_OO_lj_powers F
        (nb312nf_single_OO_coul F A s))) =
       (dadd F (lj_energy F (fst (nb312_c6 s)) (fst (nb312_c12 s)) (fst (nb312_rinvOO s)))
          (fst (nb312_Vvdwtot s)), snd (nb312_Vvdwtot s))"
    by (simp add: nb312nf_single_OO_lj_eff nfs_pw nb312_single_OO_lj_powers_eff
        nb312nf_single_OO_coul_keeps lj_energy_def)
  have pw: "lj_r6 F x = dmul F (dmul F (dmul F x x) (dmul F x x)) (dmul F x x)"
    "lj_r12 F x = dmul F (lj_r6 F x) (lj_r6 F x)"
    by (simp_all add: lj_r6_def lj_r12_def Let_def)
  show ?thesis
    unfolding Let_def
    by (simp only: unrolled_pw unrolled_V unrolled_f unrolled_fs single_pw single_V single_f
        single_fs nf_pw nf_V nfs_pw nfs_V pw [symmetric] nb312_six_twelve exact_six_twelve
        lj_exact simp_thms)
qed

end
